theory Spec2Isabelle
  imports Complex_Main "HOL-Library.Word"
begin

section \<open>JavaScript values\<close>

text \<open>
  A JavaScript string is a sequence of 16-bit code units. String literals of the source
  are ASCII and are written with \<open>lit\<close>.
\<close>

type_synonym unit16 = "16 word"

type_synonym jsstring = "unit16 list"

definition lit :: "string \<Rightarrow> jsstring" where
  "lit s = map of_char s"

text \<open>
  The values that reach the program from parsed JSON (request bodies, upstream responses):
  \<open>JUndefined\<close> is the value of an absent property. A number is the exact value of the
  double that the parser produced (a negative zero is \<open>0\<close>; JSON has no NaN).
\<close>

datatype jsval =
    JUndefined
  | JNull
  | JBool bool
  | JNum rat
  | JStr jsstring
  | JArr "jsval list"
  | JObj "(jsstring \<times> jsval) list"

text \<open>\<open>ToBoolean\<close>: what \<open>!v\<close>, \<open>v && ...\<close>, \<open>v || ...\<close> and \<open>if (v)\<close> test.\<close>

fun truthy :: "jsval \<Rightarrow> bool" where
  "truthy JUndefined = False"
| "truthy JNull = False"
| "truthy (JBool b) = b"
| "truthy (JNum n) = (n \<noteq> 0)"
| "truthy (JStr s) = (s \<noteq> [])"
| "truthy (JArr xs) = True"
| "truthy (JObj kvs) = True"

text \<open>
  \<open>v.k\<close> for a truthy \<open>v\<close> and a property name \<open>k\<close> that no prototype defines (the source
  reads \<open>data\<close> and \<open>id\<close> only, and only behind \<open>&&\<close>): the own property of a parsed
  object, \<open>undefined\<close> on strings, numbers, booleans and arrays. Where the JSON text
  repeats a key, the last occurrence is the property.
\<close>

fun property :: "jsstring \<Rightarrow> jsval \<Rightarrow> jsval" where
  "property k (JObj kvs) = (case map_of (rev kvs) k of None \<Rightarrow> JUndefined | Some v \<Rightarrow> v)"
| "property k v = JUndefined"

datatype js_error = TypeError | AxiosError

subsection \<open>Whitespace, \<open>String.prototype.trim\<close> and the phone pattern\<close>

text \<open>
  The code units that ECMAScript calls WhiteSpace or LineTerminator: the class \<open>\s\<close> of
  a regular expression and what \<open>trim\<close> strips.
\<close>

definition isWhiteSpace :: "unit16 \<Rightarrow> bool" where
  "isWhiteSpace c = (c \<in> set [0x0009, 0x000A, 0x000B, 0x000C, 0x000D, 0x0020, 0x00A0, 0x1680,
     0x2000, 0x2001, 0x2002, 0x2003, 0x2004, 0x2005, 0x2006, 0x2007, 0x2008, 0x2009, 0x200A,
     0x2028, 0x2029, 0x202F, 0x205F, 0x3000, 0xFEFF])"

definition trim :: "jsstring \<Rightarrow> jsstring" where
  "trim s = rev (dropWhile isWhiteSpace (rev (dropWhile isWhiteSpace s)))"

text \<open>The character class \<open>[\s+-]\<close> of the handler: whitespace, \<open>+\<close> (0x2B), \<open>-\<close> (0x2D).\<close>

definition phone_pattern :: "unit16 \<Rightarrow> bool" where
  "phone_pattern c = (isWhiteSpace c \<or> c = 0x2B \<or> c = 0x2D)"

text \<open>
  \<open>rawPhone.replace(/[\s+-]/g, "")\<close>: the scan goes left to right, every code unit the
  class matches is replaced by the empty string, every other one is copied.
\<close>

fun normalize_phone :: "jsstring \<Rightarrow> jsstring" where
  "normalize_phone [] = []"
| "normalize_phone (c # cs) = (if phone_pattern c then normalize_phone cs else c # normalize_phone cs)"

section \<open>Inactivity\<close>

definition INACTIVITY_THRESHOLD_MS :: int where
  "INACTIVITY_THRESHOLD_MS = 1 * 60 * 1000"

text \<open>
  \<open>isUserInactive\<close>. The stored timestamp is \<open>None\<close> when the column is null or absent, and
  otherwise the instant (milliseconds since the epoch) that \<open>new Date(ts).getTime()\<close> reads
  from the ISO string which \<open>toISOString\<close> wrote. The first argument is the clock reading
  \<open>new Date().getTime()\<close> of the call.
\<close>

definition isUserInactive :: "int \<Rightarrow> int option \<Rightarrow> bool" where
  "isUserInactive now lastActivityTimestamp =
     (case lastActivityTimestamp of
        None \<Rightarrow> True
      | Some lastActivity \<Rightarrow>
          (let timeDiff = now - lastActivity in timeDiff > INACTIVITY_THRESHOLD_MS))"

section \<open>The user record and the store\<close>

text \<open>
  One row of the table \<open>conversation_states\<close>, with the fields the source reads and writes.
  \<open>agent\<close> is \<open>None\<close> for null (what \<open>createUser\<close> writes) and a string otherwise
  (\<open>updateUserAgent\<close> writes the empty string to disconnect). The conversation ids are kept
  as the values the upstream returned.
\<close>

record user =
  phone :: jsstring
  last_message :: jsval
  state :: jsstring
  agent :: "jsstring option"
  cs_conversation_id :: jsval
  sales_conversation_id :: jsval
  last_activity_timestamp :: "int option"

text \<open>One key of a PATCH payload with its value.\<close>

datatype assignment =
    Set_state jsstring
  | Set_last_message jsval
  | Set_agent jsstring
  | Set_cs_conversation_id jsval
  | Set_sales_conversation_id jsval
  | Set_last_activity_timestamp int

fun assign :: "assignment \<Rightarrow> user \<Rightarrow> user" where
  "assign (Set_state v) u = u\<lparr>state := v\<rparr>"
| "assign (Set_last_message v) u = u\<lparr>last_message := v\<rparr>"
| "assign (Set_agent v) u = u\<lparr>agent := Some v\<rparr>"
| "assign (Set_cs_conversation_id v) u = u\<lparr>cs_conversation_id := v\<rparr>"
| "assign (Set_sales_conversation_id v) u = u\<lparr>sales_conversation_id := v\<rparr>"
| "assign (Set_last_activity_timestamp t) u = u\<lparr>last_activity_timestamp := Some t\<rparr>"

text \<open>
  The three requests the source sends to the store. A GET and a PATCH go to the URL
  \<open>conversation_states?phone=eq.${phone}\<close>, in which the phone is interpolated as it is,
  unencoded; they carry that interpolated string. A POST carries the row as its body.
\<close>

datatype store_request =
    GET jsstring
  | POST user
  | PATCH jsstring "assignment list"

text \<open>
  \<open>AGENT_IDS[agentType]\<close>. The two own properties are the configured identifiers. Property
  lookup also follows the prototype chain, so the names that \<open>Object.prototype\<close> defines
  give a (truthy) inherited member; every other name gives \<open>undefined\<close>, here \<open>None\<close>.
\<close>

datatype agent_id = Configured jsstring | Inherited jsstring

definition object_prototype_names :: "jsstring list" where
  "object_prototype_names = map lit [''constructor'', ''__defineGetter__'', ''__defineSetter__'',
     ''hasOwnProperty'', ''__lookupGetter__'', ''__lookupSetter__'', ''isPrototypeOf'',
     ''propertyIsEnumerable'', ''toString'', ''valueOf'', ''__proto__'', ''toLocaleString'']"

definition AGENT_IDS :: "jsstring \<Rightarrow> agent_id option" where
  "AGENT_IDS agentType =
     (if agentType = lit ''Customer Service''
        then Some (Configured (lit ''948aad98-7c1a-4c07-830a-82125d85543c''))
      else if agentType = lit ''Sales''
        then Some (Configured (lit ''726fb1ca-dee1-4cfb-bba5-41e2cd3b032d''))
      else if agentType \<in> set object_prototype_names then Some (Inherited agentType)
      else None)"

text \<open>The two requests to the conversational API: the agent id; conversation id and message.\<close>

datatype ai_request =
    Create_conversation agent_id
  | Chat_agent_stream jsval jsval

datatype call = Store store_request | AI ai_request

text \<open>
  The environment of one request. Every external call is an \<open>await\<close> of an axios promise:
  \<open>store_up\<close> tells whether the promise of a store request resolves (a non-2xx status or
  a transport failure rejects it), \<open>ai_api\<close> gives the outcome of a request to the
  conversational API, \<open>Inr\<close> with \<open>response.data\<close> or \<open>Inl\<close> with the error the promise
  rejects with. \<open>clock k\<close> is the reading of \<open>new Date()\<close> once \<open>k\<close> external calls have
  been made.

  Which rows a URL addresses is decided outside the source, by the HTTP client and the
  store, which parse the URL into which the phone was interpolated unencoded: a \<open>#\<close> starts
  a fragment that is never sent, a \<open>%\<close> starts an escape, a \<open>&\<close> ends the filter on the phone
  and starts another parameter of the query. So the rows addressed need not be the rows
  with that phone, and the source does nothing about it. \<open>store_get ph rs\<close> is the array that
  the store, holding the rows \<open>rs\<close>, answers to a GET with the interpolated phone \<open>ph\<close>;
  \<open>store_patched ph rs r\<close> tells whether a PATCH with the interpolated phone \<open>ph\<close> updates
  the row \<open>r\<close> of \<open>rs\<close>.
\<close>

record env =
  clock :: "nat \<Rightarrow> int"
  store_up :: "store_request \<Rightarrow> bool"
  store_get :: "jsstring \<Rightarrow> user list \<Rightarrow> user list"
  store_patched :: "jsstring \<Rightarrow> user list \<Rightarrow> user \<Rightarrow> bool"
  ai_api :: "ai_request \<Rightarrow> js_error + jsval"

text \<open>
  The world a request runs in: the rows of the table (nothing in the source keeps two rows
  from having the same phone) and the log of the external calls made so far, oldest first.
\<close>

record world =
  rows :: "user list"
  calls :: "call list"

definition new_Date :: "env \<Rightarrow> world \<Rightarrow> int" where
  "new_Date e w = clock e (length (calls w))"

text \<open>
  What an accepted request does to the rows (the store is an external REST service; this
  is its interface): a GET changes nothing, a POST appends the row of its body, a PATCH
  overwrites the fields of its payload in every row that its URL addresses.
\<close>

fun store_effect :: "env \<Rightarrow> store_request \<Rightarrow> user list \<Rightarrow> user list" where
  "store_effect e (GET ph) rs = rs"
| "store_effect e (POST u) rs = rs @ [u]"
| "store_effect e (PATCH ph payload) rs =
     map (\<lambda>r. if store_patched e ph rs r then fold assign payload r else r) rs"

text \<open>The rows after a request: a request that the store rejects changes nothing.\<close>

definition store_result :: "env \<Rightarrow> store_request \<Rightarrow> user list \<Rightarrow> user list" where
  "store_result e r rs = (if store_up e r then store_effect e r rs else rs)"

text \<open>
  One awaited store request inside \<open>try\<close>: the call is logged; the result tells whether
  the promise resolved, and the rows change only then.
\<close>

definition store_call :: "env \<Rightarrow> store_request \<Rightarrow> world \<Rightarrow> bool \<times> world" where
  "store_call e r w =
     (store_up e r, w\<lparr>rows := store_result e r (rows w), calls := calls w @ [Store r]\<rparr>)"

text \<open>One awaited request to the conversational API: logged, outcome from the environment.\<close>

definition ai_call :: "env \<Rightarrow> ai_request \<Rightarrow> world \<Rightarrow> (js_error + jsval) \<times> world" where
  "ai_call e r w = (ai_api e r, w\<lparr>calls := calls w @ [AI r]\<rparr>)"

section \<open>The gateway functions\<close>

text \<open>
  \<open>createUser(phone, last_message = "")\<close>: the default applies to an undefined argument.
  The result is the \<open>success\<close> field.
\<close>

definition createUser :: "env \<Rightarrow> jsstring \<Rightarrow> jsval \<Rightarrow> world \<Rightarrow> bool \<times> world" where
  "createUser e ph lastMessage w =
     (let payload =
            \<lparr>phone = ph,
             last_message = (if lastMessage = JUndefined then JStr [] else lastMessage),
             state = lit ''initial'',
             agent = None,
             cs_conversation_id = JNull,
             sales_conversation_id = JNull,
             last_activity_timestamp = Some (new_Date e w)\<rparr>
      in store_call e (POST payload) w)"

text \<open>
  \<open>checkUserExists\<close>: the fields \<open>exists\<close> and \<open>data\<close> of its result. \<open>response.data\<close> is
  the array that the store answers with; the source takes its first element when it is not
  empty.
\<close>

definition checkUserExists :: "env \<Rightarrow> jsstring \<Rightarrow> world \<Rightarrow> (bool \<times> user option) \<times> world" where
  "checkUserExists e ph w =
     (case store_call e (GET ph) w of
        (True, w') \<Rightarrow>
          (case store_get e ph (rows w) of
             u # rest \<Rightarrow> ((True, Some u), w')
           | [] \<Rightarrow> ((False, None), w'))
      | (False, w') \<Rightarrow> ((False, None), w'))"

text \<open>
  \<open>updateUserMessage\<close>: the payload has \<open>state\<close> and \<open>last_message\<close>; serialisation drops
  a key whose value is \<open>undefined\<close>.
\<close>

definition updateUserMessage :: "env \<Rightarrow> jsstring \<Rightarrow> jsval \<Rightarrow> world \<Rightarrow> bool \<times> world" where
  "updateUserMessage e ph lastMessage w =
     store_call e
       (PATCH ph (Set_state (lit ''selecting'')
                  # (if lastMessage = JUndefined then [] else [Set_last_message lastMessage]))) w"

text \<open>
  \<open>createConversationId\<close>: the new id, or \<open>null\<close> for an unknown agent type, a rejected
  request, or a response without a truthy \<open>data.data.id\<close>.
\<close>

definition createConversationId :: "env \<Rightarrow> jsstring \<Rightarrow> world \<Rightarrow> jsval \<times> world" where
  "createConversationId e agentType w =
     (case AGENT_IDS agentType of
        None \<Rightarrow> (JNull, w)
      | Some agentId \<Rightarrow>
          (case ai_call e (Create_conversation agentId) w of
             (Inl err, w') \<Rightarrow> (JNull, w')
           | (Inr d, w') \<Rightarrow>
               (if truthy d \<and> truthy (property (lit ''data'') d)
                    \<and> truthy (property (lit ''id'') (property (lit ''data'') d))
                then (property (lit ''id'') (property (lit ''data'') d), w')
                else (JNull, w'))))"

definition updateConversationId :: "env \<Rightarrow> jsstring \<Rightarrow> jsstring \<Rightarrow> jsval \<Rightarrow> world \<Rightarrow> bool \<times> world" where
  "updateConversationId e ph agentType conversationId w =
     store_call e
       (PATCH ph [if agentType = lit ''Customer Service''
                  then Set_cs_conversation_id conversationId
                  else Set_sales_conversation_id conversationId,
                  Set_last_activity_timestamp (new_Date e w)]) w"

definition getOrCreateConversationId ::
  "env \<Rightarrow> jsstring \<Rightarrow> jsstring \<Rightarrow> user \<Rightarrow> bool \<Rightarrow> world \<Rightarrow> jsval \<times> world" where
  "getOrCreateConversationId e ph agentType userData forceNewConversation w =
     (let existingConversationId =
            (if agentType = lit ''Customer Service''
             then cs_conversation_id userData
             else sales_conversation_id userData)
      in if \<not> truthy existingConversationId \<or> forceNewConversation
         then (case createConversationId e agentType w of
                 (newConversationId, w1) \<Rightarrow>
                   if truthy newConversationId
                   then (newConversationId,
                         snd (updateConversationId e ph agentType newConversationId w1))
                   else (JNull, w1))
         else (existingConversationId, w))"

definition updateLastActivityTimestamp :: "env \<Rightarrow> jsstring \<Rightarrow> world \<Rightarrow> bool \<times> world" where
  "updateLastActivityTimestamp e ph w =
     store_call e (PATCH ph [Set_last_activity_timestamp (new_Date e w)]) w"

definition updateUserAgent :: "env \<Rightarrow> jsstring \<Rightarrow> jsstring \<Rightarrow> world \<Rightarrow> bool \<times> world" where
  "updateUserAgent e ph ag w = store_call e (PATCH ph [Set_agent ag]) w"

section \<open>The router\<close>

text \<open>The fixed reply texts of the source.\<close>

definition connected_cs_text :: jsstring where
  "connected_cs_text =
     lit ''Anda telah terhubung dengan Customer Service. Ketik 3, untuk memutuskan koneksi.''"

definition connected_sales_text :: jsstring where
  "connected_sales_text =
     lit ''Anda telah terhubung dengan Sales Team. Ketik 3, untuk memutuskan koneksi.''"

definition disconnected_text :: jsstring where
  "disconnected_text =
     lit ''Koneksi anda telah terputus. Silahkan pilih agent kami untuk keperluan anda. 1) Customer Service 2) Sales Team''"

definition system_error_text :: jsstring where
  "system_error_text = lit ''Maaf, terjadi kesalahan sistem. Silahkan coba lagi nanti.''"

definition menu_prompt_text :: jsstring where
  "menu_prompt_text =
     lit ''Apakah ada yang bisa kami bantu? Silahkan pilih agent kami untuk keperluan anda. 1) Customer Service 2) Sales Team''"

definition cannot_process_text :: jsstring where
  "cannot_process_text = lit ''Maaf, kami tidak dapat memproses pesan Anda saat ini.''"

definition agent_apology_text :: jsstring where
  "agent_apology_text =
     lit ''Terjadi kesalahan saat berkomunikasi dengan agen. Silahkan coba lagi nanti.''"

definition welcome_text :: jsstring where
  "welcome_text =
     lit ''Selamat datang! Silahkan pilih agent kami untuk keperluan anda. 1) Customer Service 2) Sales Team''"

definition create_failed_text :: jsstring where
  "create_failed_text =
     lit ''Terjadi kesalahan saat memproses permintaan Anda. Silahkan coba lagi nanti.''"

definition no_result_text :: jsstring where
  "no_result_text =
     lit ''Silahkan pilih agent kami untuk keperluan anda. 1) Customer Service 2) Sales Team''"

text \<open>
  \<open>chatWithAgent\<close>: the \<open>reply\<close> field of the object it returns. The whole body is inside
  \<open>try\<close>; the \<open>catch\<close> turns whatever the request threw into the apology. The result has
  the type of a computation that may throw, as every \<open>async\<close> function has.
\<close>

definition chatWithAgent ::
  "env \<Rightarrow> jsstring \<Rightarrow> jsval \<Rightarrow> jsval \<Rightarrow> world \<Rightarrow> (js_error + jsval) \<times> world" where
  "chatWithAgent e ag message conversationId w =
     (case ai_call e (Chat_agent_stream conversationId message) w of
        (Inr d, w') \<Rightarrow> (Inr (if truthy d then d else JStr cannot_process_text), w')
      | (Inl err, w') \<Rightarrow> (Inr (JStr agent_apology_text), w'))"

text \<open>The object \<open>{ choice, reply }\<close> that \<open>handleAgentSelection\<close> returns.\<close>

record selection =
  choice :: jsstring
  reply :: jsval

text \<open>
  The \<open>default\<close> branch of the switch: the values of \<open>choice\<close> and \<open>replyMessage\<close> after it.
  \<open>if (currentAgent)\<close> holds for a non-empty string.
\<close>

definition route_message ::
  "env \<Rightarrow> jsstring \<Rightarrow> jsval \<Rightarrow> user \<Rightarrow> bool \<Rightarrow> world \<Rightarrow> (js_error + jsstring \<times> jsval) \<times> world" where
  "route_message e ph message userData isInactive w =
     (case agent userData of
        None \<Rightarrow> (Inr (lit ''INVALID'', JStr menu_prompt_text), w)
      | Some currentAgent \<Rightarrow>
          if currentAgent \<noteq> []
          then (case getOrCreateConversationId e ph currentAgent userData isInactive w of
                  (conversationId, w1) \<Rightarrow>
                    if truthy conversationId
                    then (case chatWithAgent e currentAgent message conversationId w1 of
                            (Inl err, w2) \<Rightarrow> (Inl err, w2)
                          | (Inr chatReply, w2) \<Rightarrow>
                              (Inr (currentAgent, chatReply),
                               snd (updateLastActivityTimestamp e ph w2)))
                    else (Inr (currentAgent, JStr system_error_text), w1))
          else (Inr (lit ''INVALID'', JStr menu_prompt_text), w))"

text \<open>
  \<open>handleAgentSelection\<close>. \<open>message.trim()\<close> throws a TypeError when \<open>message\<close> is not a
  string. The result is \<open>None\<close> when the function falls off its end (the state is not
  \<open>selecting\<close>) and returns \<open>undefined\<close>.
\<close>

definition handleAgentSelection ::
  "env \<Rightarrow> jsstring \<Rightarrow> jsstring \<Rightarrow> jsval \<Rightarrow> user \<Rightarrow> bool \<Rightarrow> world
     \<Rightarrow> (js_error + selection option) \<times> world" where
  "handleAgentSelection e ph currentState message userData isInactive w =
     (if currentState = lit ''selecting''
      then (case message of
              JStr s \<Rightarrow>
                (let m = trim s;
                     switch =
                       (if m = lit ''1''
                          then (Inr (lit ''Customer Service'', JStr connected_cs_text, True), w)
                        else if m = lit ''2''
                          then (Inr (lit ''Sales'', JStr connected_sales_text, True), w)
                        else if m = lit ''3''
                          then (Inr ([], JStr disconnected_text, True), w)
                        else (case route_message e ph message userData isInactive w of
                                (Inl err, w1) \<Rightarrow> (Inl err, w1)
                              | (Inr (ch, replyMessage), w1) \<Rightarrow>
                                  (Inr (ch, replyMessage, False), w1)))
                 in case switch of
                      (Inl err, w1) \<Rightarrow> (Inl err, w1)
                    | (Inr (ch, replyMessage, shouldUpdateAgent), w1) \<Rightarrow>
                        (Inr (Some \<lparr>choice = ch, reply = replyMessage\<rparr>),
                         if shouldUpdateAgent
                         then snd (updateLastActivityTimestamp e ph
                                     (snd (updateUserAgent e ph ch w1)))
                         else w1))
            | _ \<Rightarrow> (Inl TypeError, w))
      else (Inr None, w))"

section \<open>The webhook handler\<close>

text \<open>The fields \<open>phone\<close> and \<open>message\<close> of \<open>req.body\<close>, \<open>JUndefined\<close> when absent.\<close>

record request =
  body_phone :: jsval
  body_message :: jsval

datatype json_body =
    Json_error jsstring
  | Json_reply bool jsval jsstring

text \<open>
  What the handler does with the request: it sends a status and a JSON body, or an error
  leaves it uncaught and it sends nothing.
\<close>

datatype outcome = Sent nat json_body | Uncaught js_error

text \<open>
  The handler of \<open>app.post("/")\<close>. \<open>rawPhone.replace\<close> throws a TypeError when the truthy
  \<open>rawPhone\<close> is not a string. \<open>Json_reply\<close> carries \<open>exists\<close>, \<open>reply\<close> and \<open>choice\<close>.
\<close>

definition post_handler :: "env \<Rightarrow> request \<Rightarrow> world \<Rightarrow> outcome \<times> world" where
  "post_handler e req w =
     (let rawPhone = body_phone req;
          lastMessage = body_message req
      in if \<not> truthy rawPhone
         then (Sent 400 (Json_error (lit ''Phone number is missing'')), w)
         else (case rawPhone of
                 JStr raw \<Rightarrow>
                   (let ph = normalize_phone raw in
                    case checkUserExists e ph w of
                      ((False, userData), w1) \<Rightarrow>
                        (case createUser e ph lastMessage w1 of
                           (True, w2) \<Rightarrow> (Sent 200 (Json_reply False (JStr welcome_text) []), w2)
                         | (False, w2) \<Rightarrow>
                             (Sent 200 (Json_reply False (JStr create_failed_text) []), w2))
                    | ((True, None), w1) \<Rightarrow> (Uncaught TypeError, w1)
                    | ((True, Some userData), w1) \<Rightarrow>
                        (let userInactive =
                               isUserInactive (new_Date e w1) (last_activity_timestamp userData);
                             w2 = snd (updateUserMessage e ph lastMessage w1)
                         in case handleAgentSelection e ph (state userData) lastMessage
                                   userData userInactive w2 of
                              (Inl err, w3) \<Rightarrow> (Uncaught err, w3)
                            | (Inr (Some result), w3) \<Rightarrow>
                                (Sent 200 (Json_reply True (reply result) (choice result)), w3)
                            | (Inr None, w3) \<Rightarrow>
                                (Sent 200 (Json_reply True (JStr no_result_text) []), w3)))
               | _ \<Rightarrow> (Uncaught TypeError, w)))"

section \<open>Observations on the call log\<close>

text \<open>The calls a request added to the log of the world it started in.\<close>

definition new_calls :: "world \<Rightarrow> world \<Rightarrow> call list" where
  "new_calls w w' = drop (length (calls w)) (calls w')"

fun is_create_conversation :: "call \<Rightarrow> bool" where
  "is_create_conversation (AI (Create_conversation a)) = True"
| "is_create_conversation c = False"

fun is_timestamp_assignment :: "assignment \<Rightarrow> bool" where
  "is_timestamp_assignment (Set_last_activity_timestamp t) = True"
| "is_timestamp_assignment a = False"

fun is_conversation_assignment :: "assignment \<Rightarrow> bool" where
  "is_conversation_assignment (Set_cs_conversation_id v) = True"
| "is_conversation_assignment (Set_sales_conversation_id v) = True"
| "is_conversation_assignment a = False"

fun is_agent_assignment :: "assignment \<Rightarrow> bool" where
  "is_agent_assignment (Set_agent v) = True"
| "is_agent_assignment a = False"

fun is_message_assignment :: "assignment \<Rightarrow> bool" where
  "is_message_assignment (Set_state v) = True"
| "is_message_assignment (Set_last_message v) = True"
| "is_message_assignment a = False"

text \<open>A store write whose payload has a key that the predicate accepts.\<close>

fun writes :: "(assignment \<Rightarrow> bool) \<Rightarrow> call \<Rightarrow> bool" where
  "writes P (Store (PATCH ph payload)) = list_ex P payload"
| "writes P c = False"

fun is_store_write :: "call \<Rightarrow> bool" where
  "is_store_write (Store (PATCH ph payload)) = True"
| "is_store_write (Store (POST u)) = True"
| "is_store_write c = False"

fun is_store_read :: "call \<Rightarrow> bool" where
  "is_store_read (Store (GET ph)) = True"
| "is_store_read c = False"

text \<open>
  The upstream creation fails for an agent type: the type has no entry in \<open>AGENT_IDS\<close>,
  the request is rejected, or the response has no truthy \<open>data.data.id\<close>.
\<close>

definition creation_fails :: "env \<Rightarrow> jsstring \<Rightarrow> bool" where
  "creation_fails e agentType =
     (case AGENT_IDS agentType of
        None \<Rightarrow> True
      | Some agentId \<Rightarrow>
          (case ai_api e (Create_conversation agentId) of
             Inl err \<Rightarrow> True
           | Inr d \<Rightarrow> \<not> (truthy d \<and> truthy (property (lit ''data'') d)
                          \<and> truthy (property (lit ''id'') (property (lit ''data'') d)))))"

text \<open>
  The row that a fetch with the interpolated phone \<open>ph\<close> returns in a world: the first
  element of the array that the store answers with, if it has one.
\<close>

definition fetched :: "env \<Rightarrow> world \<Rightarrow> jsstring \<Rightarrow> user option" where
  "fetched e w ph = (case store_get e ph (rows w) of [] \<Rightarrow> None | u # rest \<Rightarrow> Some u)"

text \<open>The conversation slot of an agent type in a row.\<close>

definition conversation_slot :: "jsstring \<Rightarrow> user \<Rightarrow> jsval" where
  "conversation_slot agentType u =
     (if agentType = lit ''Customer Service''
      then cs_conversation_id u else sales_conversation_id u)"

section \<open>A scenario\<close>

text \<open>
  The phone of the scenario, raw and normalized, a stored row, a world with at most that
  row, an environment whose store accepts the requests of the given predicate and whose
  upstream answers the creation as given, and a request from that phone. The store of the
  scenario reads a phone from a URL up to the first \<open>#\<close> (0x23), where the fragment starts,
  and addresses the rows with the phone it read.
\<close>

definition cut_fragment :: "jsstring \<Rightarrow> jsstring" where
  "cut_fragment ph = takeWhile (\<lambda>c. c \<noteq> 0x23) ph"

definition ex_addressed :: "jsstring \<Rightarrow> user \<Rightarrow> bool" where
  "ex_addressed ph r = (phone r = cut_fragment ph)"

definition ex_raw :: jsstring where
  "ex_raw = lit ''+62 812-345-678''"

definition ex_key :: jsstring where
  "ex_key = lit ''62812345678''"

definition ex_raw_fragment :: jsstring where
  "ex_raw_fragment = lit ''62812345678#1''"

definition ex_user :: "jsstring \<Rightarrow> jsstring option \<Rightarrow> jsval \<Rightarrow> int option \<Rightarrow> user" where
  "ex_user st ag cs ts =
     \<lparr>phone = ex_key, last_message = JStr (lit ''hello''), state = st, agent = ag,
      cs_conversation_id = cs, sales_conversation_id = JNull, last_activity_timestamp = ts\<rparr>"

definition ex_world :: "user option \<Rightarrow> world" where
  "ex_world u = \<lparr>rows = (case u of None \<Rightarrow> [] | Some r \<Rightarrow> [r]), calls = []\<rparr>"

definition ex_created :: jsval where
  "ex_created = JObj [(lit ''data'', JObj [(lit ''id'', JStr (lit ''conv-2''))])]"

fun store_all_up :: "store_request \<Rightarrow> bool" where
  "store_all_up r = True"

fun store_rejects_insert :: "store_request \<Rightarrow> bool" where
  "store_rejects_insert (POST u) = False"
| "store_rejects_insert r = True"

fun store_rejects_conversation :: "store_request \<Rightarrow> bool" where
  "store_rejects_conversation (PATCH ph payload) = (\<not> list_ex is_conversation_assignment payload)"
| "store_rejects_conversation r = True"

definition ex_env :: "(store_request \<Rightarrow> bool) \<Rightarrow> js_error + jsval \<Rightarrow> env" where
  "ex_env up created =
     \<lparr>clock = (\<lambda>k. 100000 + int k),
      store_up = up,
      store_get = (\<lambda>ph rs. filter (ex_addressed ph) rs),
      store_patched = (\<lambda>ph rs r. ex_addressed ph r),
      ai_api = (\<lambda>r. case r of
                       Create_conversation a \<Rightarrow> created
                     | Chat_agent_stream c m \<Rightarrow> Inr (JStr (lit ''Halo'')))\<rparr>"

definition ex_request :: "jsval \<Rightarrow> request" where
  "ex_request m = \<lparr>body_phone = JStr ex_raw, body_message = m\<rparr>"

section \<open>Basic facts\<close>

text \<open>Distinct literals are distinct strings: a character is a code unit below 256.\<close>

lemma unat_of_char16: "unat (of_char c :: 16 word) = of_char c"
proof -
  have "(of_char c :: 16 word) = of_nat (of_char c)"
    by (simp add: of_nat_of_char)
  then have "unat (of_char c :: 16 word) = (of_char c :: nat) mod 2 ^ 16"
    by (simp only: unat_of_nat len_of_numeral_defs) simp
  moreover have "(of_char c :: nat) < 2 ^ 16"
  proof -
    have "(of_char c :: nat) < 256" by (rule nat_of_char_less_256)
    also have "(256 :: nat) < 2 ^ 16" by simp
    finally show ?thesis .
  qed
  ultimately show ?thesis by simp
qed

lemma of_char16_eq_iff: "((of_char c :: 16 word) = of_char d) = (c = d)"
proof
  assume "(of_char c :: 16 word) = of_char d"
  then have "unat (of_char c :: 16 word) = unat (of_char d :: 16 word)" by simp
  then show "c = d" by (simp only: unat_of_char16 of_char_eq_iff)
qed simp

lemma lit_eq_iff [simp]: "(lit a = lit b) = (a = b)"
  unfolding lit_def by (rule inj_map_eq_map) (simp add: inj_def of_char16_eq_iff)

lemma lit_eq_Nil [simp]: "(lit a = []) = (a = [])" "([] = lit a) = (a = [])"
  by (auto simp add: lit_def)

lemmas gateway_defs =
  store_call_def ai_call_def new_Date_def createUser_def checkUserExists_def
  updateUserMessage_def createConversationId_def updateConversationId_def
  getOrCreateConversationId_def updateLastActivityTimestamp_def updateUserAgent_def
  chatWithAgent_def

lemmas router_defs = route_message_def handleAgentSelection_def post_handler_def

lemmas scenario_defs =
  ex_raw_def ex_key_def ex_user_def ex_world_def ex_created_def ex_env_def ex_request_def

section \<open>The gateway functions, case by case\<close>

lemma ex_normalize: "normalize_phone ex_raw = ex_key"
  by (simp add: ex_raw_def ex_key_def lit_def phone_pattern_def isWhiteSpace_def)

lemma ex_raw_nonempty: "ex_raw \<noteq> []"
  by (simp add: ex_raw_def)

lemma AGENT_IDS_cs: "AGENT_IDS (lit ''Customer Service'') = Some (Configured (lit ''948aad98-7c1a-4c07-830a-82125d85543c''))"
  by (simp add: AGENT_IDS_def)

lemma AGENT_IDS_sales: "AGENT_IDS (lit ''Sales'') = Some (Configured (lit ''726fb1ca-dee1-4cfb-bba5-41e2cd3b032d''))"
  by (simp add: AGENT_IDS_def)

lemma store_result_get [simp]: "store_result e (GET ph) rs = rs"
  by (simp add: store_result_def)

lemma store_result_post:
  "store_result e (POST u) rs = (if store_up e (POST u) then rs @ [u] else rs)"
  by (simp add: store_result_def)

text \<open>A PATCH leaves a field as it is, in every row, when no key of its payload sets it.\<close>

lemma fold_assign_keeps:
  "(\<And>x r. x \<in> set p \<Longrightarrow> f (assign x r) = f r) \<Longrightarrow> f (fold assign p r) = f r"
  by (induction p arbitrary: r) simp_all

lemma map_patch:
  assumes "\<And>x r. x \<in> set p \<Longrightarrow> f (assign x r) = f r"
  shows "map f (store_result e (PATCH ph p) rs) = map f rs"
  using fold_assign_keeps [of p f, OF assms] by (simp add: store_result_def)

lemma patch_keeps_agent:
  assumes "\<not> list_ex is_agent_assignment p"
  shows "map agent (store_result e (PATCH ph p) rs) = map agent rs"
proof (rule map_patch)
  fix x r assume "x \<in> set p"
  with assms have "\<not> is_agent_assignment x" by (auto simp add: list_ex_iff)
  then show "agent (assign x r) = agent r" by (cases x) simp_all
qed

lemma patch_keeps_cs:
  assumes "\<not> list_ex is_conversation_assignment p"
  shows "map cs_conversation_id (store_result e (PATCH ph p) rs) = map cs_conversation_id rs"
proof (rule map_patch)
  fix x r assume "x \<in> set p"
  with assms have "\<not> is_conversation_assignment x" by (auto simp add: list_ex_iff)
  then show "cs_conversation_id (assign x r) = cs_conversation_id r" by (cases x) simp_all
qed

lemma patch_keeps_sales:
  assumes "\<not> list_ex is_conversation_assignment p"
  shows "map sales_conversation_id (store_result e (PATCH ph p) rs)
           = map sales_conversation_id rs"
proof (rule map_patch)
  fix x r assume "x \<in> set p"
  with assms have "\<not> is_conversation_assignment x" by (auto simp add: list_ex_iff)
  then show "sales_conversation_id (assign x r) = sales_conversation_id r"
    by (cases x) simp_all
qed

lemma patch_keeps_slot:
  assumes "\<not> list_ex is_conversation_assignment p"
  shows "map (conversation_slot a) (store_result e (PATCH ph p) rs)
           = map (conversation_slot a) rs"
proof (rule map_patch)
  fix x r assume "x \<in> set p"
  with assms have "\<not> is_conversation_assignment x" by (auto simp add: list_ex_iff)
  then show "conversation_slot a (assign x r) = conversation_slot a r"
    by (cases x) (simp_all add: conversation_slot_def)
qed

lemma patch_keeps_timestamp:
  assumes "\<not> list_ex is_timestamp_assignment p"
  shows "map last_activity_timestamp (store_result e (PATCH ph p) rs)
           = map last_activity_timestamp rs"
proof (rule map_patch)
  fix x r assume "x \<in> set p"
  with assms have "\<not> is_timestamp_assignment x" by (auto simp add: list_ex_iff)
  then show "last_activity_timestamp (assign x r) = last_activity_timestamp r"
    by (cases x) simp_all
qed

text \<open>
  The write of a new handle puts it into the slot of the agent type in every row that the
  write addresses.
\<close>

lemma persist_sets_slot:
  "map (conversation_slot a)
     (store_effect e
        (PATCH ph [if a = lit ''Customer Service''
                   then Set_cs_conversation_id h else Set_sales_conversation_id h,
                   Set_last_activity_timestamp t]) rs)
     = map (\<lambda>r. if store_patched e ph rs r then h else conversation_slot a r) rs"
  by (simp add: conversation_slot_def)

lemma checkUserExists_eq:
  "checkUserExists e ph w =
     ((store_up e (GET ph) \<and> fetched e w ph \<noteq> None,
       if store_up e (GET ph) then fetched e w ph else None),
      w\<lparr>calls := calls w @ [Store (GET ph)]\<rparr>)"
  by (simp add: checkUserExists_def store_call_def fetched_def split: list.splits)

lemma checkUserExists_found:
  "store_up e (GET ph) \<Longrightarrow> fetched e w ph = Some u \<Longrightarrow>
   checkUserExists e ph w = ((True, Some u), w\<lparr>calls := calls w @ [Store (GET ph)]\<rparr>)"
  by (simp add: checkUserExists_eq)

lemma createConversationId_fails:
  "creation_fails e a \<Longrightarrow>
   createConversationId e a w =
     (JNull, case AGENT_IDS a of
               None \<Rightarrow> w
             | Some agentId \<Rightarrow> w\<lparr>calls := calls w @ [AI (Create_conversation agentId)]\<rparr>)"
  by (auto simp add: createConversationId_def creation_fails_def ai_call_def
        split: option.splits sum.splits)

lemma createConversationId_created:
  "AGENT_IDS a = Some agentId \<Longrightarrow> ai_api e (Create_conversation agentId) = Inr d \<Longrightarrow>
   truthy d \<Longrightarrow> truthy (property (lit ''data'') d) \<Longrightarrow>
   truthy (property (lit ''id'') (property (lit ''data'') d)) \<Longrightarrow>
   createConversationId e a w =
     (property (lit ''id'') (property (lit ''data'') d),
      w\<lparr>calls := calls w @ [AI (Create_conversation agentId)]\<rparr>)"
  by (simp add: createConversationId_def ai_call_def)

lemma getOrCreate_reuse:
  "truthy (conversation_slot a u) \<Longrightarrow> \<not> force \<Longrightarrow>
   getOrCreateConversationId e ph a u force w = (conversation_slot a u, w)"
  by (simp add: getOrCreateConversationId_def conversation_slot_def)

lemma getOrCreate_fails:
  "force \<or> \<not> truthy (conversation_slot a u) \<Longrightarrow> creation_fails e a \<Longrightarrow>
   getOrCreateConversationId e ph a u force w =
     (JNull, case AGENT_IDS a of
               None \<Rightarrow> w
             | Some agentId \<Rightarrow> w\<lparr>calls := calls w @ [AI (Create_conversation agentId)]\<rparr>)"
  by (auto simp add: getOrCreateConversationId_def conversation_slot_def
        createConversationId_fails)

lemma getOrCreate_created:
  assumes "force \<or> \<not> truthy (conversation_slot a u)"
    and "AGENT_IDS a = Some agentId" and "ai_api e (Create_conversation agentId) = Inr d"
    and "truthy d" and "truthy (property (lit ''data'') d)"
    and "h = property (lit ''id'') (property (lit ''data'') d)" and "truthy h"
  shows "getOrCreateConversationId e ph a u force w =
     (h, snd (updateConversationId e ph a h
                (w\<lparr>calls := calls w @ [AI (Create_conversation agentId)]\<rparr>)))"
  using assms
  by (auto simp add: getOrCreateConversationId_def conversation_slot_def
        createConversationId_created)

lemma handleAgentSelection_route:
  assumes "trim m \<noteq> lit ''1''" and "trim m \<noteq> lit ''2''" and "trim m \<noteq> lit ''3''"
  shows "handleAgentSelection e ph (lit ''selecting'') (JStr m) u inactive w =
     (case route_message e ph (JStr m) u inactive w of
        (Inl err, w1) \<Rightarrow> (Inl err, w1)
      | (Inr (ch, replyMessage), w1) \<Rightarrow> (Inr (Some \<lparr>choice = ch, reply = replyMessage\<rparr>), w1))"
  using assms
  by (simp add: handleAgentSelection_def Let_def split: prod.splits sum.splits)

lemma post_handler_existing:
  assumes "body_phone req = JStr raw" and "raw \<noteq> []" and "normalize_phone raw = ph"
    and "store_up e (GET ph)" and "fetched e w ph = Some u"
  shows "post_handler e req w =
     (case handleAgentSelection e ph (state u) (body_message req) u
             (isUserInactive (clock e (length (calls w) + 1)) (last_activity_timestamp u))
             (snd (updateUserMessage e ph (body_message req)
                     (w\<lparr>calls := calls w @ [Store (GET ph)]\<rparr>))) of
        (Inl err, w3) \<Rightarrow> (Uncaught err, w3)
      | (Inr (Some result), w3) \<Rightarrow>
          (Sent 200 (Json_reply True (reply result) (choice result)), w3)
      | (Inr None, w3) \<Rightarrow> (Sent 200 (Json_reply True (JStr no_result_text) []), w3))"
  using assms
  by (simp add: post_handler_def checkUserExists_found new_Date_def Let_def)


lemmas routed_simps =
  post_handler_existing handleAgentSelection_route route_message_def chatWithAgent_def
  ai_call_def updateLastActivityTimestamp_def updateUserMessage_def updateConversationId_def
  store_call_def new_Date_def new_calls_def Let_def

lemma routed_reuse:
  assumes "body_phone req = JStr raw" and "raw \<noteq> []" and "normalize_phone raw = ph"
    and "store_up e (GET ph)" and "fetched e w ph = Some u"
    and "state u = lit ''selecting''"
    and "body_message req = JStr m"
    and "trim m \<noteq> lit ''1''" and "trim m \<noteq> lit ''2''" and "trim m \<noteq> lit ''3''"
    and "agent u = Some a" and "a \<noteq> []"
    and "\<not> isUserInactive (clock e (length (calls w) + 1)) (last_activity_timestamp u)"
    and "truthy (conversation_slot a u)"
  shows "new_calls w (snd (post_handler e req w))
           = [Store (GET ph),
              Store (PATCH ph [Set_state (lit ''selecting''), Set_last_message (JStr m)]),
              AI (Chat_agent_stream (conversation_slot a u) (JStr m)),
              Store (PATCH ph [Set_last_activity_timestamp (clock e (length (calls w) + 3))])]"
  using assms
  by (simp add: routed_simps getOrCreate_reuse numeral_3_eq_3 split: sum.splits)

lemma routed_reuse_reply:
  assumes "body_phone req = JStr raw" and "raw \<noteq> []" and "normalize_phone raw = ph"
    and "store_up e (GET ph)" and "fetched e w ph = Some u"
    and "state u = lit ''selecting''"
    and "body_message req = JStr m"
    and "trim m \<noteq> lit ''1''" and "trim m \<noteq> lit ''2''" and "trim m \<noteq> lit ''3''"
    and "agent u = Some a" and "a \<noteq> []"
    and "\<not> isUserInactive (clock e (length (calls w) + 1)) (last_activity_timestamp u)"
    and "truthy (conversation_slot a u)"
  shows "fst (post_handler e req w)
           = Sent 200 (Json_reply True
               (case ai_api e (Chat_agent_stream (conversation_slot a u) (JStr m)) of
                  Inl err \<Rightarrow> JStr agent_apology_text
                | Inr d \<Rightarrow> if truthy d then d else JStr cannot_process_text) a)"
  using assms
  by (simp add: routed_simps getOrCreate_reuse split: sum.splits)

lemma routed_fails:
  assumes "body_phone req = JStr raw" and "raw \<noteq> []" and "normalize_phone raw = ph"
    and "store_up e (GET ph)" and "fetched e w ph = Some u"
    and "state u = lit ''selecting''"
    and "body_message req = JStr m"
    and "trim m \<noteq> lit ''1''" and "trim m \<noteq> lit ''2''" and "trim m \<noteq> lit ''3''"
    and "agent u = Some a" and "a \<noteq> []"
    and "isUserInactive (clock e (length (calls w) + 1)) (last_activity_timestamp u)
         \<or> \<not> truthy (conversation_slot a u)"
    and "creation_fails e a"
  shows "fst (post_handler e req w) = Sent 200 (Json_reply True (JStr system_error_text) a)
       \<and> new_calls w (snd (post_handler e req w))
           = [Store (GET ph),
              Store (PATCH ph [Set_state (lit ''selecting''), Set_last_message (JStr m)])]
             @ (case AGENT_IDS a of None \<Rightarrow> []
                | Some agentId \<Rightarrow> [AI (Create_conversation agentId)])
       \<and> rows (snd (post_handler e req w))
           = store_result e
               (PATCH ph [Set_state (lit ''selecting''), Set_last_message (JStr m)]) (rows w)"
proof -
  have g: "\<not> truthy (conversation_slot a u)
        \<or> isUserInactive (clock e (length (calls w) + 1)) (last_activity_timestamp u)"
    using assms(13) by blast
  show ?thesis
    using assms
    by (cases "AGENT_IDS a")
       (simp_all add: routed_simps getOrCreate_fails)
qed

lemma routed_created:
  assumes "body_phone req = JStr raw" and "raw \<noteq> []" and "normalize_phone raw = ph"
    and "store_up e (GET ph)" and "fetched e w ph = Some u"
    and "state u = lit ''selecting''"
    and "body_message req = JStr m"
    and "trim m \<noteq> lit ''1''" and "trim m \<noteq> lit ''2''" and "trim m \<noteq> lit ''3''"
    and "agent u = Some a" and "a \<noteq> []"
    and "isUserInactive (clock e (length (calls w) + 1)) (last_activity_timestamp u)
         \<or> \<not> truthy (conversation_slot a u)"
    and "AGENT_IDS a = Some agentId" and "ai_api e (Create_conversation agentId) = Inr d"
    and "truthy d" and "truthy (property (lit ''data'') d)"
    and "h = property (lit ''id'') (property (lit ''data'') d)" and "truthy h"
    and "persist = PATCH ph [if a = lit ''Customer Service''
                             then Set_cs_conversation_id h else Set_sales_conversation_id h,
                             Set_last_activity_timestamp (clock e (length (calls w) + 3))]"
  shows "new_calls w (snd (post_handler e req w))
           = [Store (GET ph),
              Store (PATCH ph [Set_state (lit ''selecting''), Set_last_message (JStr m)]),
              AI (Create_conversation agentId),
              Store persist,
              AI (Chat_agent_stream h (JStr m)),
              Store (PATCH ph [Set_last_activity_timestamp (clock e (length (calls w) + 5))])]
       \<and> rows (snd (post_handler e req w))
           = store_result e
               (PATCH ph [Set_last_activity_timestamp (clock e (length (calls w) + 5))])
               (store_result e persist
                  (store_result e
                     (PATCH ph [Set_state (lit ''selecting''), Set_last_message (JStr m)])
                     (rows w)))"
proof -
  have g: "\<not> truthy (conversation_slot a u)
        \<or> isUserInactive (clock e (length (calls w) + 1)) (last_activity_timestamp u)"
    using assms(13) by blast
  have 5: "length (calls w) + 5 = Suc (Suc (Suc (Suc (Suc (length (calls w))))))" by simp
  show ?thesis
    using assms
    by (simp add: routed_simps getOrCreate_created [where d = d]
          numeral_3_eq_3 5 split: sum.splits)
qed

lemma creation_succeeds:
  assumes "\<not> creation_fails e a"
  obtains agentId d where "AGENT_IDS a = Some agentId"
    and "ai_api e (Create_conversation agentId) = Inr d"
    and "truthy d" and "truthy (property (lit ''data'') d)"
    and "truthy (property (lit ''id'') (property (lit ''data'') d))"
  using assms
  by (auto simp add: creation_fails_def split: option.splits sum.splits)

lemma ex_trim_hi:
  "trim (lit ''hi there'') \<noteq> lit ''1''" "trim (lit ''hi there'') \<noteq> lit ''2''"
  "trim (lit ''hi there'') \<noteq> lit ''3''"
  by (simp_all add: trim_def lit_def isWhiteSpace_def)

lemma ex_cut_fragment: "cut_fragment ex_key = ex_key"
  by (simp add: cut_fragment_def ex_key_def lit_def)

lemma ex_fetched:
  "fetched (ex_env up created) (ex_world (Some (ex_user st ag cs ts))) ex_key
     = Some (ex_user st ag cs ts)"
  "fetched (ex_env up created) (ex_world None) ex_key = None"
  by (simp_all add: fetched_def ex_addressed_def ex_world_def ex_env_def ex_cut_fragment)
     (simp add: ex_user_def)

text \<open>
  In state \<open>selecting\<close>, a message that trims to \<open>1\<close> binds Customer Service: the reply is
  the connected text, the agent is written and then the timestamp.
\<close>

lemma select_cs_selecting:
  assumes "body_phone req = JStr raw" and "raw \<noteq> []" and "normalize_phone raw = ph"
    and "store_up e (GET ph)" and "fetched e w ph = Some u"
    and "state u = lit ''selecting''"
    and "body_message req = JStr m" and "trim m = lit ''1''"
  shows "fst (post_handler e req w)
           = Sent 200 (Json_reply True (JStr connected_cs_text) (lit ''Customer Service''))
       \<and> new_calls w (snd (post_handler e req w))
           = [Store (GET ph),
              Store (PATCH ph [Set_state (lit ''selecting''), Set_last_message (JStr m)]),
              Store (PATCH ph [Set_agent (lit ''Customer Service'')]),
              Store (PATCH ph [Set_last_activity_timestamp (clock e (length (calls w) + 3))])]
       \<and> rows (snd (post_handler e req w))
           = store_result e
               (PATCH ph [Set_last_activity_timestamp (clock e (length (calls w) + 3))])
               (store_result e (PATCH ph [Set_agent (lit ''Customer Service'')])
                  (store_result e
                     (PATCH ph [Set_state (lit ''selecting''), Set_last_message (JStr m)])
                     (rows w)))"
  using assms
  by (simp add: post_handler_existing handleAgentSelection_def updateUserMessage_def
        updateUserAgent_def updateLastActivityTimestamp_def new_Date_def
        store_call_def new_calls_def Let_def numeral_3_eq_3)

section \<open>The call log of the handler, case by case\<close>

lemma not_selecting:
  assumes "body_phone req = JStr raw" and "raw \<noteq> []" and "normalize_phone raw = ph"
    and "store_up e (GET ph)" and "fetched e w ph = Some u"
    and "state u \<noteq> lit ''selecting''"
    and "payload = Set_state (lit ''selecting'')
           # (if body_message req = JUndefined then [] else [Set_last_message (body_message req)])"
  shows "fst (post_handler e req w) = Sent 200 (Json_reply True (JStr no_result_text) [])
       \<and> new_calls w (snd (post_handler e req w)) = [Store (GET ph), Store (PATCH ph payload)]
       \<and> rows (snd (post_handler e req w)) = store_result e (PATCH ph payload) (rows w)"
  using assms
  by (simp add: post_handler_existing handleAgentSelection_def updateUserMessage_def
        store_call_def new_calls_def)

lemma not_string:
  assumes "body_phone req = JStr raw" and "raw \<noteq> []" and "normalize_phone raw = ph"
    and "store_up e (GET ph)" and "fetched e w ph = Some u"
    and "state u = lit ''selecting''"
    and "\<forall>m. body_message req \<noteq> JStr m"
    and "update = PATCH ph (Set_state (lit ''selecting'')
           # (if body_message req = JUndefined then [] else [Set_last_message (body_message req)]))"
  shows "fst (post_handler e req w) = Uncaught TypeError
       \<and> new_calls w (snd (post_handler e req w)) = [Store (GET ph), Store update]"
  using assms
  by (cases "body_message req")
     (simp_all add: post_handler_existing handleAgentSelection_def updateUserMessage_def
        store_call_def new_calls_def)

lemma unbound:
  assumes "body_phone req = JStr raw" and "raw \<noteq> []" and "normalize_phone raw = ph"
    and "store_up e (GET ph)" and "fetched e w ph = Some u"
    and "state u = lit ''selecting''"
    and "body_message req = JStr m"
    and "trim m \<noteq> lit ''1''" and "trim m \<noteq> lit ''2''" and "trim m \<noteq> lit ''3''"
    and "agent u = None \<or> agent u = Some []"
    and "update = PATCH ph [Set_state (lit ''selecting''), Set_last_message (JStr m)]"
  shows "fst (post_handler e req w)
           = Sent 200 (Json_reply True (JStr menu_prompt_text) (lit ''INVALID''))
       \<and> new_calls w (snd (post_handler e req w)) = [Store (GET ph), Store update]
       \<and> rows (snd (post_handler e req w)) = store_result e update (rows w)"
  using assms
  by (auto simp add: routed_simps)

lemma menu_choice:
  assumes "body_phone req = JStr raw" and "raw \<noteq> []" and "normalize_phone raw = ph"
    and "store_up e (GET ph)" and "fetched e w ph = Some u"
    and "state u = lit ''selecting''"
    and "body_message req = JStr m"
    and "trim m = lit ''1'' \<or> trim m = lit ''2'' \<or> trim m = lit ''3''"
    and "ch = (if trim m = lit ''1'' then lit ''Customer Service''
               else if trim m = lit ''2'' then lit ''Sales'' else [])"
  shows "new_calls w (snd (post_handler e req w))
           = [Store (GET ph),
              Store (PATCH ph [Set_state (lit ''selecting''), Set_last_message (JStr m)]),
              Store (PATCH ph [Set_agent ch]),
              Store (PATCH ph [Set_last_activity_timestamp (clock e (length (calls w) + 3))])]"
  using assms
  by (auto simp add: post_handler_existing handleAgentSelection_def updateUserMessage_def
        updateUserAgent_def updateLastActivityTimestamp_def new_Date_def
        store_call_def new_calls_def Let_def numeral_3_eq_3)

lemma message_payload:
  "list_all is_message_assignment
     (Set_state v # (if lm = JUndefined then [] else [Set_last_message lm]))"
  "\<not> list_ex is_timestamp_assignment
     (Set_state v # (if lm = JUndefined then [] else [Set_last_message lm]))"
  by simp_all

lemma first_two_calls:
  assumes "body_phone req = JStr raw" and "raw \<noteq> []" and "normalize_phone raw = ph"
    and "store_up e (GET ph)" and "fetched e w ph = Some u"
    and "payload = Set_state (lit ''selecting'')
           # (if body_message req = JUndefined then [] else [Set_last_message (body_message req)])"
  shows "take 2 (new_calls w (snd (post_handler e req w)))
           = [Store (GET ph), Store (PATCH ph payload)]"
proof (cases "state u = lit ''selecting''")
  case False
  from not_selecting [OF assms(1-5) False assms(6)] show ?thesis by simp
next
  case sel: True
  note H = assms(1-5) sel
  show ?thesis
  proof (cases "\<exists>m. body_message req = JStr m")
    case False
    then have "\<forall>m. body_message req \<noteq> JStr m" by blast
    from not_string [OF H this refl] assms(6) show ?thesis by simp
  next
    case True
    then obtain m where m: "body_message req = JStr m" by blast
    then have p: "payload = [Set_state (lit ''selecting''), Set_last_message (JStr m)]"
      using assms(6) by simp
    show ?thesis
    proof (cases "trim m = lit ''1'' \<or> trim m = lit ''2'' \<or> trim m = lit ''3''")
      case True
      from menu_choice [OF H m True refl] p show ?thesis by simp
    next
      case False
      then have t: "trim m \<noteq> lit ''1''" "trim m \<noteq> lit ''2''" "trim m \<noteq> lit ''3''"
        by simp_all
      show ?thesis
      proof (cases "agent u = None \<or> agent u = Some []")
        case True
        from unbound [OF H m t True refl] p show ?thesis by simp
      next
        case False
        then obtain a where a: "agent u = Some a" "a \<noteq> []" by (cases "agent u") auto
        note B = H m t a
        show ?thesis
        proof (cases "\<not> isUserInactive (clock e (length (calls w) + 1)) (last_activity_timestamp u)
                       \<and> truthy (conversation_slot a u)")
          case True
          then have "\<not> isUserInactive (clock e (length (calls w) + 1)) (last_activity_timestamp u)"
            and "truthy (conversation_slot a u)" by simp_all
          from routed_reuse [OF B this] p show ?thesis by simp
        next
          case False
          then have g: "isUserInactive (clock e (length (calls w) + 1)) (last_activity_timestamp u)
               \<or> \<not> truthy (conversation_slot a u)" by blast
          show ?thesis
          proof (cases "creation_fails e a")
            case True
            from routed_fails [OF B g True] p show ?thesis by simp
          next
            case False
            then obtain agentId d where c: "AGENT_IDS a = Some agentId"
              "ai_api e (Create_conversation agentId) = Inr d"
              "truthy d" "truthy (property (lit ''data'') d)"
              "truthy (property (lit ''id'') (property (lit ''data'') d))"
              by (rule creation_succeeds)
            from routed_created [OF B g c(1-4) refl c(5) refl] p show ?thesis by simp
          qed
        qed
      qed
    qed
  qed
qed

section \<open>When the handler throws\<close>

text \<open>
  The only errors that leave the handler are the TypeErrors of \<open>rawPhone.replace\<close> on a
  truthy \<open>phone\<close> that is not a string and of \<open>message.trim\<close> on a \<open>message\<close> that is not a
  string; every error of an external call is caught where the call is made.
\<close>

lemma route_message_returns: "\<exists>r. fst (route_message e ph msg u inactive w) = Inr r"
  by (simp add: route_message_def chatWithAgent_def ai_call_def
        split: option.splits prod.splits sum.splits)

lemma handleAgentSelection_throws:
  assumes "fst (handleAgentSelection e ph st msg u inactive w) = Inl err"
  shows "err = TypeError \<and> st = lit ''selecting'' \<and> (\<forall>m. msg \<noteq> JStr m)"
proof (cases msg)
  case (JStr m)
  obtain r where "fst (route_message e ph (JStr m) u inactive w) = Inr r"
    using route_message_returns by blast
  with assms JStr show ?thesis
    by (cases "route_message e ph (JStr m) u inactive w")
       (auto simp add: handleAgentSelection_def Let_def split: if_splits prod.splits)
qed (use assms in \<open>auto simp add: handleAgentSelection_def split: if_splits\<close>)

lemma uncaught_paths:
  assumes "fst (post_handler e req w) = Uncaught err"
  shows "err = TypeError \<and> truthy (body_phone req)
       \<and> ((\<forall>raw. body_phone req \<noteq> JStr raw) \<or> (\<forall>m. body_message req \<noteq> JStr m))"
proof (cases "body_phone req")
  case (JStr raw)
  let ?ph = "normalize_phone raw"
  let ?w1 = "w\<lparr>calls := calls w @ [Store (GET ?ph)]\<rparr>"
  show ?thesis
  proof (cases "store_up e (GET ?ph) \<and> fetched e w ?ph \<noteq> None")
    case False
    then have c: "checkUserExists e ?ph w = ((False, None), ?w1)"
      by (auto simp add: checkUserExists_eq)
    with assms JStr show ?thesis
      by (auto simp add: post_handler_def Let_def split: if_splits prod.splits bool.splits)
  next
    case True
    then obtain u where u: "fetched e w ?ph = Some u" by auto
    with True have c: "checkUserExists e ?ph w = ((True, Some u), ?w1)"
      by (simp add: checkUserExists_eq)
    let ?i = "isUserInactive (new_Date e ?w1) (last_activity_timestamp u)"
    let ?w2 = "snd (updateUserMessage e ?ph (body_message req) ?w1)"
    obtain r w3 where h: "handleAgentSelection e ?ph (state u) (body_message req) u ?i ?w2 = (r, w3)"
      by (cases "handleAgentSelection e ?ph (state u) (body_message req) u ?i ?w2")
    with assms JStr c have "r = Inl err"
      by (auto simp add: post_handler_def Let_def split: if_splits sum.splits option.splits)
    with h handleAgentSelection_throws [of e ?ph "state u" "body_message req" u ?i ?w2 err]
    have "err = TypeError \<and> (\<forall>m. body_message req \<noteq> JStr m)" by simp
    moreover have "truthy (body_phone req)"
      using assms by (cases "truthy (body_phone req)") (simp_all add: post_handler_def)
    ultimately show ?thesis by simp
  qed
qed (use assms in \<open>auto simp add: post_handler_def Let_def split: if_splits\<close>)

section \<open>Properties\<close>

lemma normalize_filter: "normalize_phone x = filter (\<lambda>c. \<not> phone_pattern c) x"
  by (induction x) simp_all

text \<open>
  C9. For every raw phone string, normalization removes exactly the whitespace, \<open>+\<close> and
  \<open>-\<close> code units: the result is the input with all of them deleted and every other code
  unit kept in its order and multiplicity. Normalizing twice is normalizing once.
\<close>

theorem normalize_exact_idempotent:
  "normalize_phone x = filter (\<lambda>c. \<not> (isWhiteSpace c \<or> c = 0x2B \<or> c = 0x2D)) x
   \<and> normalize_phone (normalize_phone x) = normalize_phone x"
  by (simp add: normalize_filter phone_pattern_def)

text \<open>
  C5. The inactivity predicate is true for an absent timestamp; for a present one it is
  true exactly when the elapsed time exceeds the threshold, so it is false below the
  threshold and false at the boundary.
\<close>

theorem isUserInactive_spec:
  "isUserInactive now None
   \<and> isUserInactive now (Some ts) = (now - ts > INACTIVITY_THRESHOLD_MS)
   \<and> \<not> isUserInactive (ts + INACTIVITY_THRESHOLD_MS) (Some ts)
   \<and> INACTIVITY_THRESHOLD_MS = 60000"
  by (simp add: isUserInactive_def INACTIVITY_THRESHOLD_MS_def)

text \<open>
  C1 at the second message of a user. The scenario's first message \<open>hello\<close> creates the
  row in state \<open>initial\<close>. On the second message \<open>1\<close> the handler writes the state
  \<open>selecting\<close> and then gives \<open>handleAgentSelection\<close> the state of the row as it was fetched,
  \<open>initial\<close>; the function does nothing unless that state is \<open>selecting\<close>. So the answer is
  the menu text with an empty choice, not the connected text with choice
  \<open>Customer Service\<close>, and no agent is written, although the row is in state \<open>selecting\<close>
  by then.
\<close>

theorem second_message_one_not_bound:
  "map state
     (rows (snd (post_handler (ex_env store_all_up (Inl AxiosError))
              (ex_request (JStr (lit ''hello''))) (ex_world None))))
     = [lit ''initial'']
   \<and> fst (post_handler (ex_env store_all_up (Inl AxiosError)) (ex_request (JStr (lit ''1'')))
            (snd (post_handler (ex_env store_all_up (Inl AxiosError))
                   (ex_request (JStr (lit ''hello''))) (ex_world None))))
       = Sent 200 (Json_reply True (JStr no_result_text) [])
   \<and> map agent
        (rows (snd (post_handler (ex_env store_all_up (Inl AxiosError))
                 (ex_request (JStr (lit ''1'')))
                 (snd (post_handler (ex_env store_all_up (Inl AxiosError))
                        (ex_request (JStr (lit ''hello''))) (ex_world None))))))
       = [None]
   \<and> map state
        (rows (snd (post_handler (ex_env store_all_up (Inl AxiosError))
                 (ex_request (JStr (lit ''1'')))
                 (snd (post_handler (ex_env store_all_up (Inl AxiosError))
                        (ex_request (JStr (lit ''hello''))) (ex_world None))))))
       = [lit ''selecting'']
   \<and> Json_reply True (JStr no_result_text) []
       \<noteq> Json_reply True (JStr connected_cs_text) (lit ''Customer Service'')"
  by (simp add: router_defs gateway_defs store_result_def ex_normalize ex_world_def ex_env_def
        ex_request_def ex_raw_nonempty ex_cut_fragment ex_addressed_def Let_def)

text \<open>
  C7, as the code has it. A first message from a phone key for which the fetch returns no
  row: the handler fetches, finds nothing and sends one create request with state
  \<open>initial\<close>, agent null, both conversation ids null and the current time. It answers with
  \<open>exists = false\<close> and an empty choice; the reply is the welcome text when the store accepts
  the create request, and then the row is in the table as sent; otherwise the reply is the
  fixed failure text and the table is as it was. Nothing else is called: no routing occurs.
\<close>

theorem first_contact:
  assumes "body_phone req = JStr raw" and "raw \<noteq> []" and "normalize_phone raw = ph"
    and "fetched e w ph = None"
    and "created = \<lparr>phone = ph,
           last_message = (if body_message req = JUndefined then JStr [] else body_message req),
           state = lit ''initial'', agent = None,
           cs_conversation_id = JNull, sales_conversation_id = JNull,
           last_activity_timestamp = Some (clock e (length (calls w) + 1))\<rparr>"
  shows "fst (post_handler e req w)
           = Sent 200 (Json_reply False
               (JStr (if store_up e (POST created) then welcome_text else create_failed_text)) [])
       \<and> new_calls w (snd (post_handler e req w)) = [Store (GET ph), Store (POST created)]
       \<and> rows (snd (post_handler e req w))
           = (if store_up e (POST created) then rows w @ [created] else rows w)"
  using assms
  by (simp add: post_handler_def checkUserExists_eq createUser_def store_call_def
        store_result_post new_Date_def new_calls_def Let_def)

text \<open>The scenario's first message \<open>hello\<close>, the store up.\<close>

theorem first_contact_witness:
  "fetched (ex_env store_all_up (Inl AxiosError)) (ex_world None) ex_key = None
   \<and> store_up (ex_env store_all_up (Inl AxiosError))
        (POST \<lparr>phone = ex_key, last_message = JStr (lit ''hello''),
           state = lit ''initial'', agent = None,
           cs_conversation_id = JNull, sales_conversation_id = JNull,
           last_activity_timestamp = Some 100001\<rparr>)
   \<and> fst (post_handler (ex_env store_all_up (Inl AxiosError))
            (ex_request (JStr (lit ''hello''))) (ex_world None))
       = Sent 200 (Json_reply False (JStr welcome_text) [])
   \<and> rows (snd (post_handler (ex_env store_all_up (Inl AxiosError))
            (ex_request (JStr (lit ''hello''))) (ex_world None)))
       = [\<lparr>phone = ex_key, last_message = JStr (lit ''hello''),
           state = lit ''initial'', agent = None,
           cs_conversation_id = JNull, sales_conversation_id = JNull,
           last_activity_timestamp = Some 100001\<rparr>]"
proof -
  let ?e = "ex_env store_all_up (Inl AxiosError)"
  let ?req = "ex_request (JStr (lit ''hello''))"
  let ?created = "\<lparr>phone = ex_key, last_message = JStr (lit ''hello''),
           state = lit ''initial'', agent = None,
           cs_conversation_id = JNull, sales_conversation_id = JNull,
           last_activity_timestamp = Some 100001\<rparr>"
  have 1: "body_phone ?req = JStr ex_raw" by (simp add: ex_request_def)
  have 2: "fetched ?e (ex_world None) ex_key = None" by (rule ex_fetched)
  have 3: "?created = \<lparr>phone = ex_key,
           last_message = (if body_message ?req = JUndefined then JStr [] else body_message ?req),
           state = lit ''initial'', agent = None,
           cs_conversation_id = JNull, sales_conversation_id = JNull,
           last_activity_timestamp = Some (clock ?e (length (calls (ex_world None)) + 1))\<rparr>"
    by (simp add: ex_request_def ex_env_def ex_world_def)
  have 4: "store_up ?e (POST ?created)" by (simp add: ex_env_def)
  have 5: "rows (ex_world None) = []" by (simp add: ex_world_def)
  from first_contact [OF 1 ex_raw_nonempty ex_normalize 2 3] 2 4 5 show ?thesis by simp
qed

text \<open>
  C7 fails when the store rejects the create request: the handler's other branch answers
  the failure text, and no row is created.
\<close>

theorem first_contact_create_fails_counterexample:
  "fetched (ex_env store_rejects_insert (Inl AxiosError)) (ex_world None) ex_key = None
   \<and> fst (post_handler (ex_env store_rejects_insert (Inl AxiosError))
            (ex_request (JStr (lit ''hello''))) (ex_world None))
       = Sent 200 (Json_reply False (JStr create_failed_text) [])
   \<and> create_failed_text \<noteq> welcome_text
   \<and> rows (snd (post_handler (ex_env store_rejects_insert (Inl AxiosError))
            (ex_request (JStr (lit ''hello''))) (ex_world None))) = []"
proof -
  have "create_failed_text \<noteq> welcome_text"
    by (simp add: create_failed_text_def welcome_text_def)
  then show ?thesis
    by (simp add: post_handler_def gateway_defs store_result_def fetched_def ex_normalize
          ex_world_def ex_env_def ex_request_def ex_raw_nonempty Let_def)
qed

text \<open>
  The phone is put into the URL as it is. A message from the phone \<open>62812345678#1\<close>, for
  which the table has no row, is answered from the row of \<open>62812345678\<close>, which the store of
  the scenario is asked for once the fragment is dropped: \<open>exists\<close> is true and the message
  goes to the agent bound in that row.
\<close>

lemma fragment_addresses_other_row:
  "normalize_phone ex_raw_fragment = ex_raw_fragment
   \<and> map phone (rows (ex_world (Some (ex_user (lit ''selecting'') (Some (lit ''Customer Service''))
                                   (JStr (lit ''conv-1'')) (Some 99000))))) = [ex_key]
   \<and> ex_raw_fragment \<noteq> ex_key
   \<and> fst (post_handler (ex_env store_all_up (Inr ex_created))
            \<lparr>body_phone = JStr ex_raw_fragment, body_message = JStr (lit ''hi there'')\<rparr>
            (ex_world (Some (ex_user (lit ''selecting'') (Some (lit ''Customer Service''))
                              (JStr (lit ''conv-1'')) (Some 99000)))))
       = Sent 200 (Json_reply True (JStr (lit ''Halo'')) (lit ''Customer Service''))"
proof -
  let ?e = "ex_env store_all_up (Inr ex_created)"
  let ?cs = "lit ''Customer Service''"
  let ?u = "ex_user (lit ''selecting'') (Some ?cs) (JStr (lit ''conv-1'')) (Some 99000)"
  let ?req = "\<lparr>body_phone = JStr ex_raw_fragment, body_message = JStr (lit ''hi there'')\<rparr>"
  have 1: "body_phone ?req = JStr ex_raw_fragment" by simp
  have 2: "ex_raw_fragment \<noteq> []" by (simp add: ex_raw_fragment_def)
  have n: "normalize_phone ex_raw_fragment = ex_raw_fragment"
    by (simp add: ex_raw_fragment_def lit_def phone_pattern_def isWhiteSpace_def)
  have 4: "store_up ?e (GET ex_raw_fragment)" by (simp add: ex_env_def)
  have c: "cut_fragment ex_raw_fragment = ex_key"
    by (simp add: cut_fragment_def ex_raw_fragment_def ex_key_def lit_def)
  have f: "fetched ?e (ex_world (Some ?u)) ex_raw_fragment = Some ?u"
    by (simp add: fetched_def ex_addressed_def ex_world_def ex_env_def c)
       (simp add: ex_user_def)
  have 6: "state ?u = lit ''selecting''" by (simp add: ex_user_def)
  have 7: "body_message ?req = JStr (lit ''hi there'')" by simp
  have 11: "agent ?u = Some ?cs" by (simp add: ex_user_def)
  have 12: "?cs \<noteq> []" by simp
  have 13: "\<not> isUserInactive (clock ?e (length (calls (ex_world (Some ?u))) + 1))
               (last_activity_timestamp ?u)"
    by (simp add: ex_env_def ex_world_def ex_user_def isUserInactive_def
          INACTIVITY_THRESHOLD_MS_def)
  have 14: "truthy (conversation_slot ?cs ?u)"
    by (simp add: conversation_slot_def ex_user_def)
  have d: "ex_raw_fragment \<noteq> ex_key" by (simp add: ex_raw_fragment_def ex_key_def)
  have p: "map phone (rows (ex_world (Some ?u))) = [ex_key]"
    by (simp add: ex_world_def ex_user_def)
  have a: "ai_api ?e (Chat_agent_stream x y) = Inr (JStr (lit ''Halo''))" for x y
    by (simp add: ex_env_def)
  from routed_reuse_reply [OF 1 2 n 4 f 6 7 ex_trim_hi 11 12 13 14] a n p d
  show ?thesis by simp
qed

lemma sent_status:
  assumes "fst (post_handler e req w) = Sent s b"
  shows "(s = 400 \<and> \<not> truthy (body_phone req)) \<or> (s = 200 \<and> truthy (body_phone req))"
  using assms
  by (auto simp add: post_handler_def Let_def
        split: if_splits jsval.splits prod.splits bool.splits option.splits sum.splits)

text \<open>
  C8. A request whose \<open>phone\<close> is falsy (absent, null, the empty string) is answered with
  status 400 and the error body, and the world is untouched: no store request and no
  upstream call. Every other status the handler sends is 200.
\<close>

theorem missing_phone:
  "(\<not> truthy (body_phone req) \<longrightarrow>
      post_handler e req w = (Sent 400 (Json_error (lit ''Phone number is missing'')), w))
   \<and> (\<forall>s b. fst (post_handler e req w) = Sent s b \<longrightarrow> s \<noteq> 200 \<longrightarrow>
         \<not> truthy (body_phone req))
   \<and> \<not> truthy JUndefined \<and> \<not> truthy JNull \<and> \<not> truthy (JStr [])"
proof -
  have "\<not> truthy (body_phone req) \<longrightarrow>
      post_handler e req w = (Sent 400 (Json_error (lit ''Phone number is missing'')), w)"
    by (simp add: post_handler_def)
  moreover have "\<forall>s b. fst (post_handler e req w) = Sent s b \<longrightarrow> s \<noteq> 200 \<longrightarrow>
         \<not> truthy (body_phone req)"
    using sent_status [of e req w] by blast
  ultimately show ?thesis by simp
qed

text \<open>A request without a phone.\<close>

theorem missing_phone_witness:
  "\<not> truthy (body_phone \<lparr>body_phone = JUndefined, body_message = JStr (lit ''hello'')\<rparr>)
   \<and> post_handler (ex_env store_all_up (Inr ex_created))
         \<lparr>body_phone = JUndefined, body_message = JStr (lit ''hello'')\<rparr> (ex_world None)
       = (Sent 400 (Json_error (lit ''Phone number is missing'')), ex_world None)
   \<and> calls (ex_world None) = []"
  using missing_phone [of "\<lparr>body_phone = JUndefined, body_message = JStr (lit ''hello'')\<rparr>"
          "ex_env store_all_up (Inr ex_created)" "ex_world None"]
  by (simp add: ex_world_def)

text \<open>
  C10. \<open>chatWithAgent\<close> returns a reply for every agent, message, conversation id and
  upstream behaviour, and never an error: the apology when the request is rejected, the
  cannot-process text when the response data is falsy, the data itself otherwise.
\<close>

theorem chatWithAgent_total:
  "(\<exists>r. fst (chatWithAgent e ag message conversationId w) = Inr r)
   \<and> (\<forall>err. ai_api e (Chat_agent_stream conversationId message) = Inl err \<longrightarrow>
         fst (chatWithAgent e ag message conversationId w) = Inr (JStr agent_apology_text))
   \<and> (\<forall>d. ai_api e (Chat_agent_stream conversationId message) = Inr d \<longrightarrow> \<not> truthy d \<longrightarrow>
         fst (chatWithAgent e ag message conversationId w) = Inr (JStr cannot_process_text))
   \<and> (\<forall>d. ai_api e (Chat_agent_stream conversationId message) = Inr d \<longrightarrow> truthy d \<longrightarrow>
         fst (chatWithAgent e ag message conversationId w) = Inr d)"
  by (cases "ai_api e (Chat_agent_stream conversationId message)")
     (simp_all add: chatWithAgent_def ai_call_def)

text \<open>An upstream that answers, one that rejects, one that answers the empty string.\<close>

theorem chatWithAgent_total_witness:
  "ai_api (ex_env store_all_up (Inr ex_created))
       (Chat_agent_stream (JStr (lit ''conv-1'')) (JStr (lit ''hi there'')))
     = Inr (JStr (lit ''Halo''))
   \<and> truthy (JStr (lit ''Halo''))
   \<and> fst (chatWithAgent (ex_env store_all_up (Inr ex_created)) (lit ''Sales'')
            (JStr (lit ''hi there'')) (JStr (lit ''conv-1'')) (ex_world None))
       = Inr (JStr (lit ''Halo''))
   \<and> ai_api \<lparr>clock = (\<lambda>k. 0), store_up = store_all_up,
        store_get = (\<lambda>ph rs. filter (ex_addressed ph) rs),
        store_patched = (\<lambda>ph rs r. ex_addressed ph r),
        ai_api = (\<lambda>r. Inl AxiosError)\<rparr>
       (Chat_agent_stream (JStr (lit ''conv-1'')) (JStr (lit ''hi there''))) = Inl AxiosError
   \<and> fst (chatWithAgent \<lparr>clock = (\<lambda>k. 0), store_up = store_all_up,
        store_get = (\<lambda>ph rs. filter (ex_addressed ph) rs),
        store_patched = (\<lambda>ph rs r. ex_addressed ph r),
        ai_api = (\<lambda>r. Inl AxiosError)\<rparr>
            (lit ''Sales'') (JStr (lit ''hi there'')) (JStr (lit ''conv-1'')) (ex_world None))
       = Inr (JStr agent_apology_text)
   \<and> ai_api \<lparr>clock = (\<lambda>k. 0), store_up = store_all_up,
        store_get = (\<lambda>ph rs. filter (ex_addressed ph) rs),
        store_patched = (\<lambda>ph rs r. ex_addressed ph r),
        ai_api = (\<lambda>r. Inr (JStr []))\<rparr>
       (Chat_agent_stream (JStr (lit ''conv-1'')) (JStr (lit ''hi there''))) = Inr (JStr [])
   \<and> fst (chatWithAgent \<lparr>clock = (\<lambda>k. 0), store_up = store_all_up,
        store_get = (\<lambda>ph rs. filter (ex_addressed ph) rs),
        store_patched = (\<lambda>ph rs r. ex_addressed ph r),
        ai_api = (\<lambda>r. Inr (JStr []))\<rparr>
            (lit ''Sales'') (JStr (lit ''hi there'')) (JStr (lit ''conv-1'')) (ex_world None))
       = Inr (JStr cannot_process_text)"
proof -
  let ?c = "JStr (lit ''conv-1'')" and ?m = "JStr (lit ''hi there'')"
  let ?e1 = "ex_env store_all_up (Inr ex_created)"
  let ?e2 = "\<lparr>clock = (\<lambda>k. 0), store_up = store_all_up,
        store_get = (\<lambda>ph rs. filter (ex_addressed ph) rs),
        store_patched = (\<lambda>ph rs r. ex_addressed ph r),
        ai_api = (\<lambda>r. Inl AxiosError)\<rparr>"
  let ?e3 = "\<lparr>clock = (\<lambda>k. 0), store_up = store_all_up,
        store_get = (\<lambda>ph rs. filter (ex_addressed ph) rs),
        store_patched = (\<lambda>ph rs r. ex_addressed ph r),
        ai_api = (\<lambda>r. Inr (JStr []))\<rparr>"
  have 1: "ai_api ?e1 (Chat_agent_stream ?c ?m) = Inr (JStr (lit ''Halo''))"
    by (simp add: ex_env_def)
  have 2: "ai_api ?e2 (Chat_agent_stream ?c ?m) = Inl AxiosError" by simp
  have 3: "ai_api ?e3 (Chat_agent_stream ?c ?m) = Inr (JStr [])" by simp
  from chatWithAgent_total [of ?e1 "lit ''Sales''" ?m ?c "ex_world None"] 1
  have a: "fst (chatWithAgent ?e1 (lit ''Sales'') ?m ?c (ex_world None)) = Inr (JStr (lit ''Halo''))"
    by simp
  from chatWithAgent_total [of ?e2 "lit ''Sales''" ?m ?c "ex_world None"] 2
  have b: "fst (chatWithAgent ?e2 (lit ''Sales'') ?m ?c (ex_world None)) = Inr (JStr agent_apology_text)"
    by simp
  from chatWithAgent_total [of ?e3 "lit ''Sales''" ?m ?c "ex_world None"] 3
  have c: "fst (chatWithAgent ?e3 (lit ''Sales'') ?m ?c (ex_world None)) = Inr (JStr cannot_process_text)"
    by simp
  from 1 2 3 a b c show ?thesis by simp
qed

text \<open>
  C2, as the code has it. The fetch returns a row in state \<open>selecting\<close> with a bound agent
  (Customer Service or Sales), and the text is not a menu choice; in any other state the
  handler routes nothing (\<open>not_selecting\<close>). If the inactivity check is false and the slot
  of the agent holds a handle, the handler makes no creation call and sends the message
  with the existing handle. If the check is true or the slot is empty, it makes exactly
  one creation call; when the upstream answers with a new id, the handler sends the write
  of the id to the slot before it sends the message with the new id. It ignores the result
  of that write: if the store accepts the write, the slot holds the new id in every row
  that the write addresses, and otherwise every row keeps the handle it had.
\<close>

theorem conversation_lifecycle:
  assumes "body_phone req = JStr raw" and "raw \<noteq> []" and "normalize_phone raw = ph"
    and "store_up e (GET ph)" and "fetched e w ph = Some u"
    and "state u = lit ''selecting''"
    and "body_message req = JStr m"
    and "trim m \<noteq> lit ''1''" and "trim m \<noteq> lit ''2''" and "trim m \<noteq> lit ''3''"
    and "agent u = Some a" and "a = lit ''Customer Service'' \<or> a = lit ''Sales''"
    and "inactive = isUserInactive (clock e (length (calls w) + 1)) (last_activity_timestamp u)"
    and "existing = conversation_slot a u"
    and "w' = snd (post_handler e req w)"
    and "update = PATCH ph [Set_state (lit ''selecting''), Set_last_message (JStr m)]"
  shows "(\<not> inactive \<and> truthy existing \<longrightarrow>
            new_calls w w'
              = [Store (GET ph), Store update, AI (Chat_agent_stream existing (JStr m)),
                 Store (PATCH ph [Set_last_activity_timestamp (clock e (length (calls w) + 3))])]
            \<and> filter is_create_conversation (new_calls w w') = [])
       \<and> (inactive \<or> \<not> truthy existing \<longrightarrow>
            length (filter is_create_conversation (new_calls w w')) = 1)
       \<and> (inactive \<or> \<not> truthy existing \<longrightarrow>
            (\<forall>agentId d h persist.
               AGENT_IDS a = Some agentId \<longrightarrow> ai_api e (Create_conversation agentId) = Inr d \<longrightarrow>
               truthy d \<longrightarrow> truthy (property (lit ''data'') d) \<longrightarrow>
               h = property (lit ''id'') (property (lit ''data'') d) \<longrightarrow> truthy h \<longrightarrow>
               persist = PATCH ph [if a = lit ''Customer Service''
                                   then Set_cs_conversation_id h else Set_sales_conversation_id h,
                                   Set_last_activity_timestamp (clock e (length (calls w) + 3))] \<longrightarrow>
               new_calls w w'
                 = [Store (GET ph), Store update, AI (Create_conversation agentId), Store persist,
                    AI (Chat_agent_stream h (JStr m)),
                    Store (PATCH ph [Set_last_activity_timestamp (clock e (length (calls w) + 5))])]
               \<and> map (conversation_slot a) (rows w')
                   = (if store_up e persist
                      then map (\<lambda>r. if store_patched e ph (store_result e update (rows w)) r
                                     then h else conversation_slot a r)
                             (store_result e update (rows w))
                      else map (conversation_slot a) (rows w))))"
proof -
  have bound: "a \<noteq> []" using assms(12) by auto
  note H = assms(1-11) bound
  have known: "AGENT_IDS a \<noteq> None"
    using assms(12) by (auto simp add: AGENT_IDS_cs AGENT_IDS_sales)
  have reuse: "new_calls w w'
              = [Store (GET ph), Store update, AI (Chat_agent_stream existing (JStr m)),
                 Store (PATCH ph [Set_last_activity_timestamp (clock e (length (calls w) + 3))])]
            \<and> filter is_create_conversation (new_calls w w') = []"
    if "\<not> inactive \<and> truthy existing"
  proof -
    have "new_calls w w'
              = [Store (GET ph), Store update, AI (Chat_agent_stream existing (JStr m)),
                 Store (PATCH ph [Set_last_activity_timestamp (clock e (length (calls w) + 3))])]"
      using routed_reuse [OF H] that assms(13-16) by simp
    then show ?thesis by (simp add: assms(16))
  qed
  have created: "new_calls w w'
                 = [Store (GET ph), Store update, AI (Create_conversation agentId), Store persist,
                    AI (Chat_agent_stream h (JStr m)),
                    Store (PATCH ph [Set_last_activity_timestamp (clock e (length (calls w) + 5))])]
               \<and> map (conversation_slot a) (rows w')
                   = (if store_up e persist
                      then map (\<lambda>r. if store_patched e ph (store_result e update (rows w)) r
                                     then h else conversation_slot a r)
                             (store_result e update (rows w))
                      else map (conversation_slot a) (rows w))"
    if "inactive \<or> \<not> truthy existing"
      and "AGENT_IDS a = Some agentId" and "ai_api e (Create_conversation agentId) = Inr d"
      and "truthy d" and "truthy (property (lit ''data'') d)"
      and "h = property (lit ''id'') (property (lit ''data'') d)" and "truthy h"
      and "persist = PATCH ph [if a = lit ''Customer Service''
                                   then Set_cs_conversation_id h else Set_sales_conversation_id h,
                                   Set_last_activity_timestamp (clock e (length (calls w) + 3))]"
    for agentId d h persist
  proof -
    have g: "isUserInactive (clock e (length (calls w) + 1)) (last_activity_timestamp u)
         \<or> \<not> truthy (conversation_slot a u)"
      using that(1) assms(13,14) by simp
    note c = routed_created [OF H g that(2-8)]
    let ?t = "store_result e update (rows w)"
    have kept: "map (conversation_slot a) ?t = map (conversation_slot a) (rows w)"
      by (simp add: assms(16) patch_keeps_slot)
    have "map (conversation_slot a) (rows w')
            = map (conversation_slot a) (store_result e persist ?t)"
      using c assms(15,16) by (simp add: patch_keeps_slot)
    also have "\<dots> = (if store_up e persist
                      then map (\<lambda>r. if store_patched e ph ?t r then h else conversation_slot a r) ?t
                      else map (conversation_slot a) (rows w))"
    proof (cases "store_up e persist")
      case True
      have "map (conversation_slot a) (store_effect e persist ?t)
              = map (\<lambda>r. if store_patched e ph ?t r then h else conversation_slot a r) ?t"
        unfolding that(8) by (rule persist_sets_slot)
      with True show ?thesis by (simp add: store_result_def)
    next
      case False
      with kept show ?thesis by (simp add: store_result_def)
    qed
    finally show ?thesis using c assms(15,16) by simp
  qed
  have count: "length (filter is_create_conversation (new_calls w w')) = 1"
    if new: "inactive \<or> \<not> truthy existing"
  proof (cases "creation_fails e a")
    case True
    have g: "isUserInactive (clock e (length (calls w) + 1)) (last_activity_timestamp u)
         \<or> \<not> truthy (conversation_slot a u)"
      using new assms(13,14) by simp
    from known obtain agentId where "AGENT_IDS a = Some agentId" by auto
    with routed_fails [OF H g True] assms(15) show ?thesis by simp
  next
    case False
    then obtain agentId d where c: "AGENT_IDS a = Some agentId"
      "ai_api e (Create_conversation agentId) = Inr d"
      "truthy d" "truthy (property (lit ''data'') d)"
      "truthy (property (lit ''id'') (property (lit ''data'') d))"
      by (rule creation_succeeds)
    from created [OF new c(1-4) refl c(5) refl] show ?thesis by simp
  qed
  from reuse count created show ?thesis by blast
qed

text \<open>
  The scenario's user, bound to Customer Service with the handle \<open>conv-1\<close>: active a second
  ago, and last active at the epoch.
\<close>

theorem conversation_lifecycle_witness:
  "\<not> isUserInactive 100001 (Some 99000)
   \<and> truthy (JStr (lit ''conv-1''))
   \<and> new_calls
        (ex_world (Some (ex_user (lit ''selecting'') (Some (lit ''Customer Service''))
                          (JStr (lit ''conv-1'')) (Some 99000))))
        (snd (post_handler (ex_env store_all_up (Inr ex_created))
               (ex_request (JStr (lit ''hi there'')))
               (ex_world (Some (ex_user (lit ''selecting'') (Some (lit ''Customer Service''))
                                 (JStr (lit ''conv-1'')) (Some 99000))))))
       = [Store (GET ex_key),
          Store (PATCH ex_key [Set_state (lit ''selecting''),
                               Set_last_message (JStr (lit ''hi there''))]),
          AI (Chat_agent_stream (JStr (lit ''conv-1'')) (JStr (lit ''hi there''))),
          Store (PATCH ex_key [Set_last_activity_timestamp 100003])]
   \<and> isUserInactive 100001 (Some 0)
   \<and> length (filter is_create_conversation
        (new_calls
          (ex_world (Some (ex_user (lit ''selecting'') (Some (lit ''Customer Service''))
                            (JStr (lit ''conv-1'')) (Some 0))))
          (snd (post_handler (ex_env store_all_up (Inr ex_created))
                 (ex_request (JStr (lit ''hi there'')))
                 (ex_world (Some (ex_user (lit ''selecting'') (Some (lit ''Customer Service''))
                                   (JStr (lit ''conv-1'')) (Some 0)))))))) = 1
   \<and> map cs_conversation_id
        (rows (snd (post_handler (ex_env store_all_up (Inr ex_created))
                 (ex_request (JStr (lit ''hi there'')))
                 (ex_world (Some (ex_user (lit ''selecting'') (Some (lit ''Customer Service''))
                                   (JStr (lit ''conv-1'')) (Some 0)))))))
       = [JStr (lit ''conv-2'')]"
proof -
  let ?e = "ex_env store_all_up (Inr ex_created)"
  let ?req = "ex_request (JStr (lit ''hi there''))"
  let ?cs = "lit ''Customer Service''"
  let ?r = "ex_user (lit ''selecting'') (Some ?cs) (JStr (lit ''conv-1'')) (Some 99000)"
  let ?n = "ex_user (lit ''selecting'') (Some ?cs) (JStr (lit ''conv-1'')) (Some 0)"
  have 1: "body_phone ?req = JStr ex_raw" by (simp add: ex_request_def)
  have 4: "store_up ?e (GET ex_key)" by (simp add: ex_env_def)
  have 5: "fetched ?e (ex_world (Some ?r)) ex_key = Some ?r"
    "fetched ?e (ex_world (Some ?n)) ex_key = Some ?n"
    by (rule ex_fetched)+
  have 6: "state ?r = lit ''selecting''" "state ?n = lit ''selecting''"
    by (simp_all add: ex_user_def)
  have 7: "body_message ?req = JStr (lit ''hi there'')" by (simp add: ex_request_def)
  have 11: "agent ?r = Some ?cs" "agent ?n = Some ?cs" by (simp_all add: ex_user_def)
  have 12: "?cs = lit ''Customer Service'' \<or> ?cs = lit ''Sales''" by simp
  have clock: "clock ?e k = 100000 + int k" for k by (simp add: ex_env_def)
  have len: "length (calls (ex_world x)) = 0" for x by (simp add: ex_world_def)
  have a: "\<not> isUserInactive 100001 (Some 99000)" "isUserInactive 100001 (Some 0)"
    by (simp_all add: isUserInactive_def INACTIVITY_THRESHOLD_MS_def)
  have slot: "conversation_slot ?cs ?r = JStr (lit ''conv-1'')"
    "conversation_slot ?cs ?n = JStr (lit ''conv-1'')"
    by (simp_all add: conversation_slot_def ex_user_def)
  have ts: "last_activity_timestamp ?r = Some 99000" "last_activity_timestamp ?n = Some 0"
    by (simp_all add: ex_user_def)
  have api: "ai_api ?e (Create_conversation agentId) = Inr ex_created" for agentId
    by (simp add: ex_env_def)
  have id: "property (lit ''id'') (property (lit ''data'') ex_created) = JStr (lit ''conv-2'')"
    "truthy ex_created" "truthy (property (lit ''data'') ex_created)"
    by (simp_all add: ex_created_def)
  have up: "store_up ?e x" for x by (simp add: ex_env_def)
  have addressed: "store_patched ?e ex_key rs r = (phone r = ex_key)" for rs r
    by (simp add: ex_env_def ex_addressed_def ex_cut_fragment)
  have table: "rows (ex_world (Some ?n)) = [?n]" by (simp add: ex_world_def)
  have cs: "conversation_slot ?cs = cs_conversation_id"
    by (simp add: fun_eq_iff conversation_slot_def)
  have key: "phone ?n = ex_key" by (simp add: ex_user_def)
  have reuse: "new_calls (ex_world (Some ?r)) (snd (post_handler ?e ?req (ex_world (Some ?r))))
       = [Store (GET ex_key),
          Store (PATCH ex_key [Set_state (lit ''selecting''),
                               Set_last_message (JStr (lit ''hi there''))]),
          AI (Chat_agent_stream (JStr (lit ''conv-1'')) (JStr (lit ''hi there''))),
          Store (PATCH ex_key [Set_last_activity_timestamp 100003])]"
    using conversation_lifecycle [OF 1 ex_raw_nonempty ex_normalize 4 5(1) 6(1) 7 ex_trim_hi
            11(1) 12 refl refl refl refl] a
    by (simp add: clock len slot ts)
  have new: "length (filter is_create_conversation
        (new_calls (ex_world (Some ?n)) (snd (post_handler ?e ?req (ex_world (Some ?n)))))) = 1
     \<and> map cs_conversation_id (rows (snd (post_handler ?e ?req (ex_world (Some ?n)))))
        = [JStr (lit ''conv-2'')]"
    using conversation_lifecycle [OF 1 ex_raw_nonempty ex_normalize 4 5(2) 6(2) 7 ex_trim_hi
            11(2) 12 refl refl refl refl] a
    by (simp add: clock len slot ts api id up AGENT_IDS_cs cs
          store_result_def addressed table key)
  from a reuse new show ?thesis by simp
qed

text \<open>
  C2 fails where it says that the handle is persisted: the handler ignores the result of
  the write. Here the scenario's stale user writes when the store rejects every write of a
  conversation id: one conversation is created and the message is sent with the new
  handle \<open>conv-2\<close>, while the row keeps the stale handle \<open>conv-1\<close>.
\<close>

theorem conversation_lifecycle_rejected_write_counterexample:
  "isUserInactive 100001 (Some 0)
   \<and> new_calls
        (ex_world (Some (ex_user (lit ''selecting'') (Some (lit ''Customer Service''))
                          (JStr (lit ''conv-1'')) (Some 0))))
        (snd (post_handler (ex_env store_rejects_conversation (Inr ex_created))
               (ex_request (JStr (lit ''hi there'')))
               (ex_world (Some (ex_user (lit ''selecting'') (Some (lit ''Customer Service''))
                                 (JStr (lit ''conv-1'')) (Some 0))))))
       = [Store (GET ex_key),
          Store (PATCH ex_key [Set_state (lit ''selecting''),
                               Set_last_message (JStr (lit ''hi there''))]),
          AI (Create_conversation (Configured (lit ''948aad98-7c1a-4c07-830a-82125d85543c''))),
          Store (PATCH ex_key [Set_cs_conversation_id (JStr (lit ''conv-2'')),
                               Set_last_activity_timestamp 100003]),
          AI (Chat_agent_stream (JStr (lit ''conv-2'')) (JStr (lit ''hi there''))),
          Store (PATCH ex_key [Set_last_activity_timestamp 100005])]
   \<and> \<not> store_up (ex_env store_rejects_conversation (Inr ex_created))
          (PATCH ex_key [Set_cs_conversation_id (JStr (lit ''conv-2'')),
                         Set_last_activity_timestamp 100003])
   \<and> map cs_conversation_id
        (rows (snd (post_handler (ex_env store_rejects_conversation (Inr ex_created))
                 (ex_request (JStr (lit ''hi there'')))
                 (ex_world (Some (ex_user (lit ''selecting'') (Some (lit ''Customer Service''))
                                   (JStr (lit ''conv-1'')) (Some 0)))))))
       = [JStr (lit ''conv-1'')]"
proof -
  let ?e = "ex_env store_rejects_conversation (Inr ex_created)"
  let ?req = "ex_request (JStr (lit ''hi there''))"
  let ?cs = "lit ''Customer Service''"
  let ?n = "ex_user (lit ''selecting'') (Some ?cs) (JStr (lit ''conv-1'')) (Some 0)"
  have a: "isUserInactive 100001 (Some 0)"
    by (simp add: isUserInactive_def INACTIVITY_THRESHOLD_MS_def)
  have t: "trim (lit ''hi there'') \<noteq> lit ''1''" "trim (lit ''hi there'') \<noteq> lit ''2''"
    "trim (lit ''hi there'') \<noteq> lit ''3''"
    by (rule ex_trim_hi)+
  have r: "\<not> store_up ?e (PATCH ex_key [Set_cs_conversation_id (JStr (lit ''conv-2'')),
                         Set_last_activity_timestamp 100003])"
    by (simp add: ex_env_def)
  have "post_handler ?e ?req (ex_world (Some ?n))
      = (Sent 200 (Json_reply True (JStr (lit ''Halo'')) ?cs),
         \<lparr>rows = [?n\<lparr>last_message := JStr (lit ''hi there''),
                       last_activity_timestamp := Some 100005\<rparr>],
          calls = [Store (GET ex_key),
          Store (PATCH ex_key [Set_state (lit ''selecting''),
                               Set_last_message (JStr (lit ''hi there''))]),
          AI (Create_conversation (Configured (lit ''948aad98-7c1a-4c07-830a-82125d85543c''))),
          Store (PATCH ex_key [Set_cs_conversation_id (JStr (lit ''conv-2'')),
                               Set_last_activity_timestamp 100003]),
          AI (Chat_agent_stream (JStr (lit ''conv-2'')) (JStr (lit ''hi there''))),
          Store (PATCH ex_key [Set_last_activity_timestamp 100005])]\<rparr>)"
    using a t
    by (simp add: router_defs gateway_defs ex_normalize ex_world_def ex_env_def ex_user_def
          ex_request_def ex_raw_nonempty ex_cut_fragment ex_created_def ex_addressed_def
          store_result_def AGENT_IDS_cs Let_def)
  with a r show ?thesis by (simp add: new_calls_def ex_world_def ex_user_def)
qed

text \<open>
  C3. When a non-menu text is routed to the bound agent, the first call of the request is
  the fetch of the row, it is the only read, and no write precedes it. The decision to
  create a conversation is the inactivity predicate on the timestamp of the row that this
  fetch returned (read at the clock value after that one call), or an empty slot: it does
  not depend on what the request writes afterwards.
\<close>

theorem inactivity_read_first:
  assumes "body_phone req = JStr raw" and "raw \<noteq> []" and "normalize_phone raw = ph"
    and "store_up e (GET ph)" and "fetched e w ph = Some u"
    and "state u = lit ''selecting''"
    and "body_message req = JStr m"
    and "trim m \<noteq> lit ''1''" and "trim m \<noteq> lit ''2''" and "trim m \<noteq> lit ''3''"
    and "agent u = Some a" and "a \<noteq> []"
    and "inactive = isUserInactive (clock e (length (calls w) + 1)) (last_activity_timestamp u)"
    and "w' = snd (post_handler e req w)"
  shows "new_calls w w' = Store (GET ph) # tl (new_calls w w')
       \<and> \<not> list_ex is_store_read (tl (new_calls w w'))
       \<and> \<not> list_ex is_store_write (takeWhile (\<lambda>c. \<not> is_store_read c) (new_calls w w'))
       \<and> (\<not> inactive \<and> truthy (conversation_slot a u) \<longrightarrow>
             \<not> list_ex is_create_conversation (new_calls w w'))
       \<and> (inactive \<or> \<not> truthy (conversation_slot a u) \<longrightarrow> AGENT_IDS a \<noteq> None \<longrightarrow>
             list_ex is_create_conversation (new_calls w w'))"
proof -
  note H = assms(1-12)
  let ?P = "\<lambda>cs. cs = Store (GET ph) # tl cs \<and> \<not> list_ex is_store_read (tl cs)
       \<and> \<not> list_ex is_store_write (takeWhile (\<lambda>c. \<not> is_store_read c) cs)"
  show ?thesis
  proof (cases "\<not> inactive \<and> truthy (conversation_slot a u)")
    case True
    then have "\<not> isUserInactive (clock e (length (calls w) + 1)) (last_activity_timestamp u)"
      and "truthy (conversation_slot a u)"
      using assms(13) by simp_all
    from routed_reuse [OF H this] True assms(14) show ?thesis by simp
  next
    case new: False
    then have g: "isUserInactive (clock e (length (calls w) + 1)) (last_activity_timestamp u)
         \<or> \<not> truthy (conversation_slot a u)"
      using assms(13) by blast
    show ?thesis
    proof (cases "creation_fails e a")
      case True
      from routed_fails [OF H g True] new assms(14) show ?thesis
        by (cases "AGENT_IDS a") simp_all
    next
      case False
      then obtain agentId d where c: "AGENT_IDS a = Some agentId"
        "ai_api e (Create_conversation agentId) = Inr d"
        "truthy d" "truthy (property (lit ''data'') d)"
        "truthy (property (lit ''id'') (property (lit ''data'') d))"
        by (rule creation_succeeds)
      from routed_created [OF H g c(1-4) refl c(5) refl] new assms(14) show ?thesis
        by simp
    qed
  qed
qed


text \<open>
  The scenario's stale user: the request itself refreshes the timestamp twice, and the
  conversation is still created anew.
\<close>

theorem inactivity_read_first_witness:
  "isUserInactive 100001 (Some 0)
   \<and> AGENT_IDS (lit ''Customer Service'') \<noteq> None
   \<and> list_ex is_create_conversation
        (new_calls
          (ex_world (Some (ex_user (lit ''selecting'') (Some (lit ''Customer Service''))
                            (JStr (lit ''conv-1'')) (Some 0))))
          (snd (post_handler (ex_env store_all_up (Inr ex_created))
                 (ex_request (JStr (lit ''hi there'')))
                 (ex_world (Some (ex_user (lit ''selecting'') (Some (lit ''Customer Service''))
                                   (JStr (lit ''conv-1'')) (Some 0)))))))
   \<and> \<not> list_ex is_store_read
        (tl (new_calls
          (ex_world (Some (ex_user (lit ''selecting'') (Some (lit ''Customer Service''))
                            (JStr (lit ''conv-1'')) (Some 0))))
          (snd (post_handler (ex_env store_all_up (Inr ex_created))
                 (ex_request (JStr (lit ''hi there'')))
                 (ex_world (Some (ex_user (lit ''selecting'') (Some (lit ''Customer Service''))
                                   (JStr (lit ''conv-1'')) (Some 0))))))))"
proof -
  let ?e = "ex_env store_all_up (Inr ex_created)"
  let ?req = "ex_request (JStr (lit ''hi there''))"
  let ?cs = "lit ''Customer Service''"
  let ?n = "ex_user (lit ''selecting'') (Some ?cs) (JStr (lit ''conv-1'')) (Some 0)"
  have 1: "body_phone ?req = JStr ex_raw" by (simp add: ex_request_def)
  have 4: "store_up ?e (GET ex_key)" by (simp add: ex_env_def)
  have 5: "fetched ?e (ex_world (Some ?n)) ex_key = Some ?n" by (rule ex_fetched)
  have 6: "state ?n = lit ''selecting''" by (simp add: ex_user_def)
  have 7: "body_message ?req = JStr (lit ''hi there'')" by (simp add: ex_request_def)
  have 11: "agent ?n = Some ?cs" by (simp add: ex_user_def)
  have 12: "?cs \<noteq> []" by simp
  have a: "isUserInactive 100001 (Some 0)"
    by (simp add: isUserInactive_def INACTIVITY_THRESHOLD_MS_def)
  have 13: "isUserInactive (clock ?e (length (calls (ex_world (Some ?n))) + 1))
              (last_activity_timestamp ?n)"
    using a by (simp add: ex_env_def ex_world_def ex_user_def)
  have k: "AGENT_IDS ?cs \<noteq> None" by (simp add: AGENT_IDS_cs)
  from inactivity_read_first [OF 1 ex_raw_nonempty ex_normalize 4 5 6 7 ex_trim_hi 11 12 refl refl]
    13 a k
  show ?thesis by simp
qed

text \<open>
  C4. A non-menu text is routed to the bound agent, a new conversation is needed and the
  upstream creation fails (the agent type has no entry, the request is rejected, or the
  response has no id). The reply is the fixed system-error text, the choice is the bound
  agent; no write carries a conversation id or an agent, and every row of the table keeps
  its agent and both conversation ids.
\<close>

theorem creation_failure:
  assumes "body_phone req = JStr raw" and "raw \<noteq> []" and "normalize_phone raw = ph"
    and "store_up e (GET ph)" and "fetched e w ph = Some u"
    and "state u = lit ''selecting''"
    and "body_message req = JStr m"
    and "trim m \<noteq> lit ''1''" and "trim m \<noteq> lit ''2''" and "trim m \<noteq> lit ''3''"
    and "agent u = Some a" and "a \<noteq> []"
    and "isUserInactive (clock e (length (calls w) + 1)) (last_activity_timestamp u)
         \<or> \<not> truthy (conversation_slot a u)"
    and "creation_fails e a"
    and "w' = snd (post_handler e req w)"
  shows "fst (post_handler e req w) = Sent 200 (Json_reply True (JStr system_error_text) a)
       \<and> \<not> list_ex (writes is_conversation_assignment) (new_calls w w')
       \<and> \<not> list_ex (writes is_agent_assignment) (new_calls w w')
       \<and> map agent (rows w') = map agent (rows w)
       \<and> map cs_conversation_id (rows w') = map cs_conversation_id (rows w)
       \<and> map sales_conversation_id (rows w') = map sales_conversation_id (rows w)"
proof -
  note f = routed_fails [OF assms(1-14)]
  have "\<not> list_ex (writes is_conversation_assignment) (new_calls w w')
      \<and> \<not> list_ex (writes is_agent_assignment) (new_calls w w')"
    using f assms(15) by (cases "AGENT_IDS a") simp_all
  moreover have "map agent (rows w') = map agent (rows w)
       \<and> map cs_conversation_id (rows w') = map cs_conversation_id (rows w)
       \<and> map sales_conversation_id (rows w') = map sales_conversation_id (rows w)"
    using f assms(15) by (simp add: patch_keeps_agent patch_keeps_cs patch_keeps_sales)
  ultimately show ?thesis using f by simp
qed

text \<open>The scenario's stale user when the upstream rejects the creation request.\<close>

theorem creation_failure_witness:
  "isUserInactive 100001 (Some 0)
   \<and> creation_fails (ex_env store_all_up (Inl AxiosError)) (lit ''Customer Service'')
   \<and> fst (post_handler (ex_env store_all_up (Inl AxiosError))
            (ex_request (JStr (lit ''hi there'')))
            (ex_world (Some (ex_user (lit ''selecting'') (Some (lit ''Customer Service''))
                              (JStr (lit ''conv-1'')) (Some 0)))))
       = Sent 200 (Json_reply True (JStr system_error_text) (lit ''Customer Service''))
   \<and> map cs_conversation_id
        (rows (snd (post_handler (ex_env store_all_up (Inl AxiosError))
                 (ex_request (JStr (lit ''hi there'')))
                 (ex_world (Some (ex_user (lit ''selecting'') (Some (lit ''Customer Service''))
                                   (JStr (lit ''conv-1'')) (Some 0)))))))
       = [JStr (lit ''conv-1'')]
   \<and> map agent
        (rows (snd (post_handler (ex_env store_all_up (Inl AxiosError))
                 (ex_request (JStr (lit ''hi there'')))
                 (ex_world (Some (ex_user (lit ''selecting'') (Some (lit ''Customer Service''))
                                   (JStr (lit ''conv-1'')) (Some 0)))))))
       = [Some (lit ''Customer Service'')]"
proof -
  let ?e = "ex_env store_all_up (Inl AxiosError)"
  let ?req = "ex_request (JStr (lit ''hi there''))"
  let ?cs = "lit ''Customer Service''"
  let ?n = "ex_user (lit ''selecting'') (Some ?cs) (JStr (lit ''conv-1'')) (Some 0)"
  have 1: "body_phone ?req = JStr ex_raw" by (simp add: ex_request_def)
  have 4: "store_up ?e (GET ex_key)" by (simp add: ex_env_def)
  have 5: "fetched ?e (ex_world (Some ?n)) ex_key = Some ?n" by (rule ex_fetched)
  have 6: "state ?n = lit ''selecting''" by (simp add: ex_user_def)
  have 7: "body_message ?req = JStr (lit ''hi there'')" by (simp add: ex_request_def)
  have 11: "agent ?n = Some ?cs" by (simp add: ex_user_def)
  have 12: "?cs \<noteq> []" by simp
  have a: "isUserInactive 100001 (Some 0)"
    by (simp add: isUserInactive_def INACTIVITY_THRESHOLD_MS_def)
  have 13: "isUserInactive (clock ?e (length (calls (ex_world (Some ?n))) + 1))
              (last_activity_timestamp ?n) \<or> \<not> truthy (conversation_slot ?cs ?n)"
    using a by (simp add: ex_env_def ex_world_def ex_user_def)
  have 14: "creation_fails ?e ?cs"
    by (simp add: creation_fails_def AGENT_IDS_cs ex_env_def)
  have ids: "map cs_conversation_id (rows (ex_world (Some ?n))) = [JStr (lit ''conv-1'')]"
    "map agent (rows (ex_world (Some ?n))) = [Some ?cs]"
    by (simp_all add: ex_world_def ex_user_def)
  from creation_failure [OF 1 ex_raw_nonempty ex_normalize 4 5 6 7 ex_trim_hi 11 12 13 14 refl]
    a 14 ids
  show ?thesis by simp
qed

text \<open>
  C6. In a request from an existing user, a write that carries \<open>last_activity_timestamp\<close>
  occurs only if the fetched state is \<open>selecting\<close> and the message is a menu choice or an
  agent is bound. A text that is not a menu choice, from a user without a bound agent,
  causes no such write and leaves the timestamp of every row of the table as it was. The
  second call of every such request is the message update, whose payload has the keys
  \<open>state\<close> and \<open>last_message\<close> only.
\<close>

theorem timestamp_frame:
  assumes "body_phone req = JStr raw" and "raw \<noteq> []" and "normalize_phone raw = ph"
    and "store_up e (GET ph)" and "fetched e w ph = Some u"
    and "w' = snd (post_handler e req w)"
    and "payload = Set_state (lit ''selecting'')
           # (if body_message req = JUndefined then [] else [Set_last_message (body_message req)])"
  shows "(list_ex (writes is_timestamp_assignment) (new_calls w w') \<longrightarrow>
            state u = lit ''selecting''
            \<and> (\<exists>m. body_message req = JStr m
                 \<and> (trim m = lit ''1'' \<or> trim m = lit ''2'' \<or> trim m = lit ''3''
                      \<or> (\<exists>a. agent u = Some a \<and> a \<noteq> []))))
       \<and> (\<forall>m. body_message req = JStr m \<longrightarrow>
              trim m \<noteq> lit ''1'' \<longrightarrow> trim m \<noteq> lit ''2'' \<longrightarrow> trim m \<noteq> lit ''3'' \<longrightarrow>
              agent u = None \<or> agent u = Some [] \<longrightarrow>
              \<not> list_ex (writes is_timestamp_assignment) (new_calls w w')
              \<and> map last_activity_timestamp (rows w')
                  = map last_activity_timestamp (rows w))
       \<and> take 2 (new_calls w w') = [Store (GET ph), Store (PATCH ph payload)]
       \<and> list_all is_message_assignment payload"
proof -
  note H = assms(1-5)
  have quiet: "\<not> list_ex (writes is_timestamp_assignment) (new_calls w w')
         \<and> map last_activity_timestamp (rows w') = map last_activity_timestamp (rows w)"
    if "state u \<noteq> lit ''selecting''"
    using not_selecting [OF H that assms(7)] assms(6,7)
    by (simp add: message_payload patch_keeps_timestamp)
  have untyped: "\<not> list_ex (writes is_timestamp_assignment) (new_calls w w')"
    if "state u = lit ''selecting''" and "\<forall>m. body_message req \<noteq> JStr m"
    using not_string [OF H that refl] assms(6) by (simp add: message_payload)
  have plain: "\<not> list_ex (writes is_timestamp_assignment) (new_calls w w')
         \<and> map last_activity_timestamp (rows w') = map last_activity_timestamp (rows w)"
    if "body_message req = JStr m"
      and "trim m \<noteq> lit ''1''" and "trim m \<noteq> lit ''2''" and "trim m \<noteq> lit ''3''"
      and "agent u = None \<or> agent u = Some []" for m
  proof (cases "state u = lit ''selecting''")
    case True
    from unbound [OF H True that refl] assms(6) show ?thesis
      by (simp add: patch_keeps_timestamp)
  next
    case False
    then show ?thesis by (rule quiet)
  qed
  have only: "state u = lit ''selecting''
            \<and> (\<exists>m. body_message req = JStr m
                 \<and> (trim m = lit ''1'' \<or> trim m = lit ''2'' \<or> trim m = lit ''3''
                      \<or> (\<exists>a. agent u = Some a \<and> a \<noteq> [])))"
    if wr: "list_ex (writes is_timestamp_assignment) (new_calls w w')"
  proof -
    have sel: "state u = lit ''selecting''" using wr quiet by blast
    obtain m where m: "body_message req = JStr m" using wr untyped [OF sel] by blast
    have "trim m = lit ''1'' \<or> trim m = lit ''2'' \<or> trim m = lit ''3''
                      \<or> (\<exists>a. agent u = Some a \<and> a \<noteq> [])"
    proof (rule ccontr)
      assume n: "\<not> ?thesis"
      then have "agent u = None \<or> agent u = Some []" by (cases "agent u") auto
      with n plain [OF m] wr show False by blast
    qed
    with sel m show ?thesis by blast
  qed
  have "take 2 (new_calls w w') = [Store (GET ph), Store (PATCH ph payload)]"
    using first_two_calls [OF H assms(7)] assms(6) by simp
  moreover have "list_all is_message_assignment payload"
    by (simp add: assms(7))
  ultimately show ?thesis using only plain by blast
qed


text \<open>The scenario's user without an agent sends a plain text.\<close>

theorem timestamp_frame_witness:
  "\<not> list_ex (writes is_timestamp_assignment)
        (new_calls
          (ex_world (Some (ex_user (lit ''selecting'') None JNull (Some 0))))
          (snd (post_handler (ex_env store_all_up (Inr ex_created))
                 (ex_request (JStr (lit ''hi there'')))
                 (ex_world (Some (ex_user (lit ''selecting'') None JNull (Some 0)))))))
   \<and> map last_activity_timestamp
        (rows (snd (post_handler (ex_env store_all_up (Inr ex_created))
                 (ex_request (JStr (lit ''hi there'')))
                 (ex_world (Some (ex_user (lit ''selecting'') None JNull (Some 0)))))))
       = [Some 0]
   \<and> take 2 (new_calls
          (ex_world (Some (ex_user (lit ''selecting'') None JNull (Some 0))))
          (snd (post_handler (ex_env store_all_up (Inr ex_created))
                 (ex_request (JStr (lit ''hi there'')))
                 (ex_world (Some (ex_user (lit ''selecting'') None JNull (Some 0)))))))
       = [Store (GET ex_key),
          Store (PATCH ex_key [Set_state (lit ''selecting''),
                               Set_last_message (JStr (lit ''hi there''))])]"
proof -
  let ?e = "ex_env store_all_up (Inr ex_created)"
  let ?req = "ex_request (JStr (lit ''hi there''))"
  let ?n = "ex_user (lit ''selecting'') None JNull (Some 0)"
  have 1: "body_phone ?req = JStr ex_raw" by (simp add: ex_request_def)
  have 4: "store_up ?e (GET ex_key)" by (simp add: ex_env_def)
  have 5: "fetched ?e (ex_world (Some ?n)) ex_key = Some ?n" by (rule ex_fetched)
  have 7: "body_message ?req = JStr (lit ''hi there'')" by (simp add: ex_request_def)
  have 11: "agent ?n = None" "map last_activity_timestamp (rows (ex_world (Some ?n))) = [Some 0]"
    by (simp_all add: ex_user_def ex_world_def)
  from timestamp_frame [OF 1 ex_raw_nonempty ex_normalize 4 5 refl refl] 7 11 ex_trim_hi
  show ?thesis by simp
qed

end
